theory Spec2Isabelle
  imports Complex_Main "HOL-Library.List_Lexorder"
begin

section \<open>Values shared by the embedding\<close>

text \<open>
  A Python \<open>str\<close> is a sequence of Unicode code points, so it is modelled as a list of
  natural numbers; \<open>ascii\<close> turns an ASCII literal into that form. The Chinese literals
  of the source are written out as code points, with a gloss beside them.
\<close>

type_synonym pystr = "nat list"

definition ascii :: "string \<Rightarrow> pystr" where
  "ascii s = map of_char s"

text \<open>
  A Python \<open>float\<close> is either the marker \<open>nan\<close> or a number, kept as a real.
  The comparisons and branches of the source are modelled as they are written. The
  arithmetic of the sector heat is rounded to the nearest double after every operation,
  as the machine does it; the arithmetic of the flow normaliser and of the scoring
  engine is exact. Infinities are not modelled.
\<close>

datatype pyfloat = NaN | Fin real

text \<open>A cell of a pandas table: \<open>None\<close>, a float (possibly \<open>nan\<close>) or a string.\<close>

datatype cell = CNone | CFloat pyfloat | CStr pystr

text \<open>
  A \<open>DataFrame\<close>: its column labels and its rows, each row listing one cell per column.
  \<open>pd.DataFrame()\<close> has neither columns nor rows; \<open>df.empty\<close> holds when either axis
  has length zero.
\<close>

record table =
  columns :: "pystr list"
  rows :: "cell list list"

definition empty_df :: table where
  "empty_df = \<lparr>columns = [], rows = []\<rparr>"

definition df_empty :: "table \<Rightarrow> bool" where
  "df_empty df \<longleftrightarrow> columns df = [] \<or> rows df = []"

text \<open>The exceptions (all subclasses of \<open>Exception\<close>) that the modelled code can meet.\<close>

datatype exn =
    KeyError | ValueError | TypeError | AttributeError | IndexError
  | OSError | RuntimeError

section \<open>Fallback feed resolver: \<open>_safe_ak_call\<close>\<close>

text \<open>
  What a provider operation hands back when it does not raise: \<open>None\<close>, a table, or
  some other object (one without an \<open>empty\<close> attribute, so that \<open>df.empty\<close> raises
  \<open>AttributeError\<close> inside the \<open>try\<close>).
\<close>

datatype pyret = RNone | RTable table | ROther

text \<open>
  The module \<open>ak\<close> is a partial map from operation names to operations
  (\<open>getattr(ak, name, None)\<close>); an operation applied to the shared arguments either
  raises or returns. Within one resolver call the outcome of an operation is a function
  of its name and the arguments.

  \<open>usable\<close> is the test of the loop body: the outcome is returned exactly when it is a
  table that is not empty.
\<close>

type_synonym 'a provider = "'a \<Rightarrow> exn + pyret"

fun usable :: "exn + pyret \<Rightarrow> table option" where
  "usable (Inl e) = None"
| "usable (Inr RNone) = None"
| "usable (Inr (RTable df)) = (if \<not> df_empty df then Some df else None)"
| "usable (Inr ROther) = None"

text \<open>
  \<open>safe_ak_call\<close> returns the table together with the names of the operations it
  actually invoked, in order of invocation.
\<close>

fun safe_ak_call :: "(pystr \<rightharpoonup> 'a provider) \<Rightarrow> pystr list \<Rightarrow> 'a \<Rightarrow> table \<times> pystr list" where
  "safe_ak_call ak [] args = (empty_df, [])"
| "safe_ak_call ak (name # func_names) args =
     (case ak name of
        None \<Rightarrow> safe_ak_call ak func_names args
      | Some func \<Rightarrow>
          (case usable (func args) of
             Some df \<Rightarrow> (df, [name])
           | None \<Rightarrow>
               (let (df, called) = safe_ak_call ak func_names args
                in (df, name # called))))"

text \<open>
  The specification's reading: a candidate \<open>answers\<close> when it is registered, raises no
  exception and returns a non-empty table.
\<close>

definition answers :: "(pystr \<rightharpoonup> 'a provider) \<Rightarrow> 'a \<Rightarrow> pystr \<Rightarrow> table option" where
  "answers ak args name =
     (case ak name of None \<Rightarrow> None | Some func \<Rightarrow> usable (func args))"

definition registered :: "(pystr \<rightharpoonup> 'a provider) \<Rightarrow> pystr \<Rightarrow> bool" where
  "registered ak name \<longleftrightarrow> ak name \<noteq> None"

section \<open>Flow normaliser: \<open>_normalize_flow_value\<close>\<close>

text \<open>
  A raw flow value is a table cell or a scalar computed from cells: \<open>None\<close>, a float or
  a string. \<open>float(value)\<close> on a string is the parameter \<open>py_float\<close> (\<open>None\<close> when it
  raises \<open>ValueError\<close>); \<open>pd.to_numeric(value, errors="coerce")\<close> on a string is the
  parameter \<open>to_numeric\<close>, which yields \<open>nan\<close> where it cannot parse.
\<close>

datatype pyvalue = PNone | PFloat pyfloat | PStr pystr

definition isna :: "pyfloat \<Rightarrow> bool" where
  "isna v \<longleftrightarrow> v = NaN"

fun abs_gt :: "pyfloat \<Rightarrow> real \<Rightarrow> bool" where
  "abs_gt NaN c = False"
| "abs_gt (Fin x) c = (\<bar>x\<bar> > c)"

fun fdiv :: "pyfloat \<Rightarrow> real \<Rightarrow> pyfloat" where
  "fdiv NaN c = NaN"
| "fdiv (Fin x) c = Fin (x / c)"

fun to_float :: "(pystr \<Rightarrow> pyfloat option) \<Rightarrow> (pystr \<Rightarrow> pyfloat) \<Rightarrow> pyvalue \<Rightarrow> pyfloat" where
  "to_float py_float to_numeric PNone = NaN"
| "to_float py_float to_numeric (PFloat f) = f"
| "to_float py_float to_numeric (PStr s) =
     (case py_float s of Some f \<Rightarrow> f | None \<Rightarrow> to_numeric s)"

definition normalize_flow_value ::
  "(pystr \<Rightarrow> pyfloat option) \<Rightarrow> (pystr \<Rightarrow> pyfloat) \<Rightarrow> pyvalue \<Rightarrow> pyfloat" where
  "normalize_flow_value py_float to_numeric v =
     (if v = PNone then NaN
      else let val = to_float py_float to_numeric v
           in if isna val then NaN
              else if abs_gt val 1000000 then fdiv val 100000000
              else val)"

text \<open>
  The specification's reading of "the value parses to the finite number \<open>x\<close>": the
  value is that float, or a string that \<open>float\<close> or, failing that, \<open>to_numeric\<close>
  reads as \<open>x\<close>. \<open>None\<close>, \<open>nan\<close> and strings neither of them reads parse to nothing.
\<close>

fun finite_of :: "pyfloat \<Rightarrow> real option" where
  "finite_of NaN = None"
| "finite_of (Fin x) = Some x"

fun parses_to :: "(pystr \<Rightarrow> pyfloat option) \<Rightarrow> (pystr \<Rightarrow> pyfloat) \<Rightarrow> pyvalue \<Rightarrow> real option" where
  "parses_to py_float to_numeric PNone = None"
| "parses_to py_float to_numeric (PFloat f) = finite_of f"
| "parses_to py_float to_numeric (PStr s) =
     (case py_float s of Some f \<Rightarrow> finite_of f | None \<Rightarrow> finite_of (to_numeric s))"

section \<open>Clock and file names\<close>

text \<open>
  \<open>datetime.now()\<close> is a reading of the wall clock, passed to the model as a value.
  \<open>strftime\<close> with the two formats of the source writes the fields as decimal digits
  (four for the year, two for the others).
\<close>

record datetime =
  year :: nat
  month :: nat
  day :: nat
  hour :: nat
  minute :: nat

definition digit :: "nat \<Rightarrow> nat" where
  "digit n = 48 + n mod 10"

definition pad2 :: "nat \<Rightarrow> pystr" where
  "pad2 n = [digit (n div 10), digit n]"

definition pad4 :: "nat \<Rightarrow> pystr" where
  "pad4 n = [digit (n div 1000), digit (n div 100), digit (n div 10), digit n]"

definition strftime_Ymd :: "datetime \<Rightarrow> pystr" where
  "strftime_Ymd now = pad4 (year now) @ pad2 (month now) @ pad2 (day now)"

definition strftime_YmdH :: "datetime \<Rightarrow> pystr" where
  "strftime_YmdH now = strftime_Ymd now @ pad2 (hour now)"

text \<open>\<open>sep.join(parts)\<close> and \<open>os.path.join(dir, name)\<close> for a non-empty \<open>dir\<close>.\<close>

fun join :: "pystr \<Rightarrow> pystr list \<Rightarrow> pystr" where
  "join sep [] = []"
| "join sep [x] = x"
| "join sep (x # y # ys) = x @ sep @ join sep (y # ys)"

definition os_path_join :: "pystr \<Rightarrow> pystr \<Rightarrow> pystr" where
  "os_path_join dir name =
     (if name \<noteq> [] \<and> hd name = 47 then name
      else if dir \<noteq> [] \<and> last dir = 47 then dir @ name
      else dir @ [47] @ name)"

section \<open>Cache manager: \<open>cache_data\<close>\<close>

text \<open>
  What a producer returns and what a cache file holds: a table, a dictionary (the
  stock-to-industry map) or \<open>None\<close>.
\<close>

datatype pyobj = ONone | OFrame table | ODict "(pystr \<times> pystr) list"

text \<open>
  The state the cache works on: the module-level dictionary \<open>_cache\<close>, the files of
  the directory \<open>../cache\<close> (path to unpickled content), whether that directory exists,
  and a count of producer invocations, kept to observe retries. Reading and writing a
  cache file are taken to succeed.
\<close>

record cache_state =
  memo :: "pystr \<rightharpoonup> pyobj"
  files :: "pystr \<rightharpoonup> pyobj"
  cache_dir :: bool
  producer_calls :: nat

definition cache_path :: "datetime \<Rightarrow> pystr \<Rightarrow> pystr list \<Rightarrow> pystr \<Rightarrow> (pystr \<times> pystr) list \<Rightarrow> pystr" where
  "cache_path now filename args frequency kwargs =
     (let time_str = (if frequency = ascii ''hourly'' then strftime_YmdH now
                      else strftime_Ymd now);
          params_str = join (ascii ''_'') args
                       @ join (ascii ''_'') (map (\<lambda>(k, v). k @ ascii ''_'' @ v) kwargs);
          unique_filename = filename @ ascii ''_'' @ params_str @ ascii ''_'' @ time_str
                            @ ascii ''.pkl''
      in os_path_join (ascii ''../cache'') unique_filename)"

text \<open>
  \<open>cache_data\<close>: \<open>args\<close> and \<open>kwargs\<close> are given by their \<open>str\<close> renderings, and
  \<open>data_func\<close> is the outcome of \<open>data_func(*args, **kwargs)\<close> should it be invoked.
\<close>

definition cache_data ::
  "cache_state \<Rightarrow> datetime \<Rightarrow> pystr \<Rightarrow> (exn + pyobj) \<Rightarrow> pystr list \<Rightarrow> pystr \<Rightarrow>
   (pystr \<times> pystr) list \<Rightarrow> pyobj \<times> cache_state" where
  "cache_data st now filename data_func args frequency kwargs =
     (let filepath = cache_path now filename args frequency kwargs
      in case memo st filepath of
           Some data \<Rightarrow> (data, st)
         | None \<Rightarrow>
             (let st1 = st\<lparr>cache_dir := True\<rparr>
              in case files st1 filepath of
                   Some data \<Rightarrow> (data, st1\<lparr>memo := (memo st1)(filepath \<mapsto> data)\<rparr>)
                 | None \<Rightarrow>
                     (let st2 = st1\<lparr>producer_calls := Suc (producer_calls st1)\<rparr>
                      in case data_func of
                           Inr data \<Rightarrow>
                             (data, st2\<lparr>files := (files st2)(filepath \<mapsto> data),
                                         memo := (memo st2)(filepath \<mapsto> data)\<rparr>)
                         | Inl e \<Rightarrow> (OFrame empty_df, st2))))"

section \<open>Incremental history: \<open>get_incremental_daily_data\<close>\<close>

text \<open>
  Reading a cell of a row by column label, and \<open>df[label]\<close>, which raises \<open>KeyError\<close>
  for a label the table does not have. A label a row has no cell for reads as \<open>nan\<close>.
\<close>

definition cell_at :: "pystr list \<Rightarrow> cell list \<Rightarrow> pystr \<Rightarrow> cell" where
  "cell_at cs row c = (case map_of (zip cs row) c of Some v \<Rightarrow> v | None \<Rightarrow> CFloat NaN)"

definition get_column :: "table \<Rightarrow> pystr \<Rightarrow> exn + cell list" where
  "get_column df c =
     (if c \<in> set (columns df) then Inr (map (\<lambda>row. cell_at (columns df) row c) (rows df))
      else Inl KeyError)"

text \<open>
  \<open>pd.concat([a, b])\<close>: the columns of \<open>a\<close> followed by the new ones of \<open>b\<close>, the rows
  of \<open>a\<close> followed by the rows of \<open>b\<close>, each row laid out on the joint columns with
  \<open>nan\<close> where its table has no such column. Row index labels are not modelled.
\<close>

definition reindex :: "pystr list \<Rightarrow> pystr list \<Rightarrow> cell list \<Rightarrow> cell list" where
  "reindex old new row = map (cell_at old row) new"

definition concat_df :: "table \<Rightarrow> table \<Rightarrow> table" where
  "concat_df a b =
     (let cs = columns a @ filter (\<lambda>c. c \<notin> set (columns a)) (columns b)
      in \<lparr>columns = cs,
          rows = map (reindex (columns a) cs) (rows a) @ map (reindex (columns b) cs) (rows b)\<rparr>)"

text \<open>
  \<open>rows.drop_duplicates(keep="last")\<close> on a key: a row stays exactly when no later row
  has the same key.
\<close>

fun keep_last :: "('r \<Rightarrow> 'k) \<Rightarrow> 'r list \<Rightarrow> 'r list" where
  "keep_last key [] = []"
| "keep_last key (r # rs) =
     (if key r \<in> key ` set rs then keep_last key rs else r # keep_last key rs)"

definition drop_duplicates_last :: "pystr \<Rightarrow> table \<Rightarrow> exn + table" where
  "drop_duplicates_last key_col df =
     (if key_col \<in> set (columns df)
      then Inr (df\<lparr>rows := keep_last (\<lambda>row. cell_at (columns df) row key_col) (rows df)\<rparr>)
      else Inl KeyError)"

text \<open>The merge of the source: concatenation, then de-duplication on the date column.\<close>

definition merge_history :: "pystr \<Rightarrow> table \<Rightarrow> table \<Rightarrow> exn + table" where
  "merge_history date_col_name df_base df_new =
     drop_duplicates_last date_col_name (concat_df df_base df_new)"

text \<open>
  \<open>get_incremental_daily_data\<close>. The producer is called with the keyword
  \<open>start_date\<close>, so \<open>data_func\<close> is its outcome as a function of that date. The
  parameter \<open>next_start\<close> stands for
  \<open>(pd.to_datetime(column).max() + timedelta(days=1)).strftime("%Y%m%d")\<close>, which may
  raise. The two strings are compared as Python compares strings, lexicographically.
\<close>

definition base_path :: "pystr \<Rightarrow> pystr" where
  "base_path base_filename =
     os_path_join (ascii ''../cache'') (base_filename @ ascii ''_base.pkl'')"

definition get_incremental_daily_data ::
  "(cell list \<Rightarrow> exn + pystr) \<Rightarrow> cache_state \<Rightarrow> datetime \<Rightarrow> pystr \<Rightarrow> (pystr \<Rightarrow> exn + pyobj) \<Rightarrow>
   pystr \<Rightarrow> exn + (pyobj \<times> cache_state)" where
  "get_incremental_daily_data next_start st now base_filename data_func date_col_name =
     (let base_filepath = base_path base_filename;
          st1 = st\<lparr>cache_dir := True\<rparr>
      in case files st1 base_filepath of
           Some stored \<Rightarrow>
             (case stored of
                OFrame df_base \<Rightarrow>
                  (case get_column df_base date_col_name of
                     Inl e \<Rightarrow> Inl e
                   | Inr dates \<Rightarrow>
                       (case next_start dates of
                          Inl e \<Rightarrow> Inl e
                        | Inr start_date \<Rightarrow>
                            (let today_str = strftime_Ymd now
                             in if start_date \<le> today_str
                                then
                                  (let st2 = st1\<lparr>producer_calls := Suc (producer_calls st1)\<rparr>
                                   in case data_func start_date of
                                        Inr (OFrame df_new) \<Rightarrow>
                                          if \<not> df_empty df_new
                                          then
                                            (case merge_history date_col_name df_base df_new of
                                               Inr df_updated \<Rightarrow>
                                                 Inr (OFrame df_updated,
                                                      st2\<lparr>files := (files st2)
                                                        (base_filepath \<mapsto> OFrame df_updated)\<rparr>)
                                             | Inl e \<Rightarrow> Inr (OFrame df_base, st2))
                                          else Inr (OFrame df_base, st2)
                                      | Inr other \<Rightarrow> Inr (OFrame df_base, st2)
                                      | Inl e \<Rightarrow> Inr (OFrame df_base, st2))
                                else Inr (OFrame df_base, st1))))
              | ONone \<Rightarrow> Inl TypeError
              | ODict d \<Rightarrow>
                  (if date_col_name \<in> fst ` set d then Inl TypeError else Inl KeyError))
         | None \<Rightarrow>
             (let st2 = st1\<lparr>producer_calls := Suc (producer_calls st1)\<rparr>
              in case data_func (ascii ''19900101'') of
                   Inr df_full \<Rightarrow>
                     Inr (df_full, st2\<lparr>files := (files st2)(base_filepath \<mapsto> df_full)\<rparr>)
                 | Inl e \<Rightarrow> Inr (OFrame empty_df, st2)))"

text \<open>
  The failed fetches the specification names: the producer raises, or returns an empty
  table.
\<close>

definition fetch_failed :: "exn + pyobj \<Rightarrow> bool" where
  "fetch_failed r = (case r of Inl e \<Rightarrow> True | Inr (OFrame d) \<Rightarrow> df_empty d | Inr _ \<Rightarrow> False)"

text \<open>
  Sample history tables with the date column of the source (code points 26085, 26399:
  "date") and a closing price.
\<close>

definition hist :: "(string \<times> real) list \<Rightarrow> table" where
  "hist xs = \<lparr>columns = [[26085, 26399], ascii ''close''],
     rows = map (\<lambda>(d, v). [CStr (ascii d), CFloat (Fin v)]) xs\<rparr>"

definition clock_sample :: datetime where
  "clock_sample = \<lparr>year = 2024, month = 1, day = 5, hour = 10, minute = 0\<rparr>"

section \<open>Narrative call: \<open>chat_volces\<close>\<close>

text \<open>
  \<open>kw in s\<close> on strings: \<open>kw\<close> occurs in \<open>s\<close> as a contiguous run.
\<close>

fun starts_with :: "pystr \<Rightarrow> pystr \<Rightarrow> bool" where
  "starts_with [] s = True"
| "starts_with (k # ks) [] = False"
| "starts_with (k # ks) (c # cs) = (k = c \<and> starts_with ks cs)"

fun py_in :: "pystr \<Rightarrow> pystr \<Rightarrow> bool" where
  "py_in kw [] = (kw = [])"
| "py_in kw (c # cs) = (starts_with kw (c # cs) \<or> py_in kw cs)"

text \<open>
  \<open>str.strip()\<close> removes the code points Python counts as whitespace from both ends.
  \<open>str.lower()\<close> is modelled on the ASCII capitals and leaves every other code point
  alone; no code point other than the capital X has x as its lower case, which is all
  the placeholder test needs.
\<close>

definition is_space :: "nat \<Rightarrow> bool" where
  "is_space c \<longleftrightarrow>
     (9 \<le> c \<and> c \<le> 13) \<or> (28 \<le> c \<and> c \<le> 32) \<or> c = 133 \<or> c = 160 \<or> c = 5760 \<or>
     (8192 \<le> c \<and> c \<le> 8202) \<or> c = 8232 \<or> c = 8233 \<or> c = 8239 \<or> c = 8287 \<or> c = 12288"

definition strip :: "pystr \<Rightarrow> pystr" where
  "strip s = rev (dropWhile is_space (rev (dropWhile is_space s)))"

definition lower :: "pystr \<Rightarrow> pystr" where
  "lower s = map (\<lambda>c. if 65 \<le> c \<and> c \<le> 90 then c + 32 else c) s"

text \<open>\<open>a or b\<close> on optional strings: \<open>a\<close> when it is a non-empty string, else \<open>b\<close>.\<close>

definition py_or :: "pystr option \<Rightarrow> pystr option \<Rightarrow> pystr option" where
  "py_or a b = (case a of None \<Rightarrow> b | Some s \<Rightarrow> if s \<noteq> [] then Some s else b)"

definition str_of :: "pystr option \<Rightarrow> pystr" where
  "str_of a = (case a of None \<Rightarrow> ascii ''None'' | Some s \<Rightarrow> s)"

definition is_placeholder :: "pystr option \<Rightarrow> bool" where
  "is_placeholder v0 =
     (case v0 of
        None \<Rightarrow> True
      | Some s \<Rightarrow>
          if s = [] then True
          else (let v = strip s in set v = {120} \<or> set (lower v) = {120}))"

text \<open>
  The default model name of the source. The default API key of the source is a
  credential and is not copied here: it is the parameter \<open>default_key\<close> of the model.
\<close>

definition MODEL :: pystr where
  "MODEL = ascii ''deepseek-v3-2-251201''"

definition resolved_key :: "(pystr \<rightharpoonup> pystr) \<Rightarrow> pystr \<Rightarrow> pystr option \<Rightarrow> pystr option" where
  "resolved_key getenv default_key api_key =
     py_or (py_or api_key (getenv (ascii ''VOLCES_API_KEY''))) (Some default_key)"

definition resolved_model :: "(pystr \<rightharpoonup> pystr) \<Rightarrow> pystr option \<Rightarrow> pystr option" where
  "resolved_model getenv model =
     py_or (py_or model (getenv (ascii ''VOLCES_MODEL''))) (Some MODEL)"

text \<open>
  JSON values as \<open>json.loads\<close> builds them; a Python value returned by \<open>chat_volces\<close>
  is one of these, a string being \<open>JStr\<close>.
\<close>

datatype json =
    JNull | JBool bool | JNum real | JStr pystr | JArr "json list"
  | JObj "(pystr \<times> json) list"

text \<open>
  An HTTP response has a status code, the outcome of \<open>resp.json()\<close> and \<open>resp.text\<close>.
  An exception is described by what the handlers of the source look at: whether it is a
  \<open>requests.RequestException\<close>, whether it is a \<open>KeyError\<close>, \<open>ValueError\<close> or
  \<open>JSONDecodeError\<close>, its \<open>response\<close> attribute, and its text \<open>str(e)\<close>.
\<close>

datatype response =
  Response (status_code: int) (json_result: "exc + json") (resp_text: "pystr option")
and exc =
  Exc (is_request_exception: bool) (is_parse_error: bool) (exc_response: "response option")
      (exc_text: pystr)

text \<open>
  Subscripting a JSON value. \<open>obj[k]\<close> with a string key succeeds on a dictionary that
  has the key (the last binding of a repeated key counts) and raises \<open>KeyError\<close> on
  one that has not; on anything else it raises \<open>TypeError\<close>. \<open>obj[0]\<close> gives the first
  element of a list or the first character of a string, raises \<open>IndexError\<close> on an
  empty one, \<open>KeyError\<close> on a dictionary and \<open>TypeError\<close> on the rest. The texts of
  these exceptions are the parameter \<open>describe\<close>.
\<close>

datatype lookup_failure = KeyFailure | IndexFailure | TypeFailure

definition lookup_exc :: "(lookup_failure \<Rightarrow> pystr) \<Rightarrow> lookup_failure \<Rightarrow> exc" where
  "lookup_exc describe f = Exc False (f = KeyFailure) None (describe f)"

fun get_item :: "(lookup_failure \<Rightarrow> pystr) \<Rightarrow> json \<Rightarrow> pystr \<Rightarrow> exc + json" where
  "get_item describe (JObj kvs) k =
     (case map_of (rev kvs) k of
        Some v \<Rightarrow> Inr v
      | None \<Rightarrow> Inl (lookup_exc describe KeyFailure))"
| "get_item describe other k = Inl (lookup_exc describe TypeFailure)"

fun get_first :: "(lookup_failure \<Rightarrow> pystr) \<Rightarrow> json \<Rightarrow> exc + json" where
  "get_first describe (JArr []) = Inl (lookup_exc describe IndexFailure)"
| "get_first describe (JArr (x # xs)) = Inr x"
| "get_first describe (JStr []) = Inl (lookup_exc describe IndexFailure)"
| "get_first describe (JStr (c # cs)) = Inr (JStr [c])"
| "get_first describe (JObj kvs) = Inl (lookup_exc describe KeyFailure)"
| "get_first describe other = Inl (lookup_exc describe TypeFailure)"

text \<open>\<open>data["choices"][0]["message"]["content"]\<close>.\<close>

definition reply_content :: "(lookup_failure \<Rightarrow> pystr) \<Rightarrow> json \<Rightarrow> exc + json" where
  "reply_content describe data =
     (case get_item describe data (ascii ''choices'') of
        Inl e \<Rightarrow> Inl e
      | Inr choices \<Rightarrow>
          (case get_first describe choices of
             Inl e \<Rightarrow> Inl e
           | Inr choice \<Rightarrow>
               (case get_item describe choice (ascii ''message'') of
                  Inl e \<Rightarrow> Inl e
                | Inr message \<Rightarrow> get_item describe message (ascii ''content''))))"

text \<open>
  The literals of the source. \<open>call_failed\<close> is "AI call failed" (AI, then code points
  35843 29992 22833 36133); \<open>msg_not_configured\<close> opens with "AI call not configured".
  The other constants are the remainders of the failure messages after \<open>call_failed\<close>.
\<close>

definition call_failed :: pystr where
  "call_failed = ascii ''AI'' @ [35843, 29992, 22833, 36133]"

definition msg_not_configured :: pystr where
  "msg_not_configured =
     ascii ''AI'' @
     [35843, 29992, 26410, 37197, 32622, 65306, 26410, 26816, 27979, 21040, 26377, 25928,
      30340, 28779, 23665, 26041, 33311, 37492, 26435, 20449, 24687, 12290, 10, 35831, 35774,
      32622, 29615, 22659, 21464, 37327, 65306, 10] @ ascii ''- VOLCES_API_KEY'' @
     [65306, 20320, 30340, 28779, 23665, 26041, 33311] @ ascii '' API Key'' @ [65288] @
     ascii ''Bearer token'' @ [65289, 10] @ ascii ''- VOLCES_MODEL'' @
     [65306, 20320, 30340, 27169, 22411, 21517, 31216, 65288, 29992, 20110] @
     ascii '' /chat/completions'' @ [65289, 10] @ ascii ''- VOLCES_ENDPOINT'' @
     [65306, 21487, 36873, 65307, 27169, 22411, 30452, 36830, 24314, 35758, 29992] @
     ascii '' https://ark.cn-beijing.volces.com/api/v3/chat/completions'' @ [10] @
     ascii ''- VOLCES_BOT_ID'' @ [65306, 21487, 36873, 65307, 33509, 20351, 29992] @
     ascii '' bots '' @ [25509, 21475, 36890, 24120, 38656, 35201, 25552, 20379] @
     ascii '' bot_id'' @
     [10, 37197, 32622, 23436, 25104, 21518, 37325, 26032, 36816, 34892, 21363, 21487,
      29983, 25104, 35813, 27573] @ ascii ''AI'' @ [20869, 23481, 12290]"

definition msg_401_tail :: pystr where
  "msg_401_tail =
     [65306, 37492, 26435, 22833, 36133] @ ascii ''(401 Unauthorized)'' @
     [12290, 10, 35831, 26816, 26597] @ ascii '' VOLCES_API_KEY '' @
     [26159, 21542, 27491, 30830, 12289, 26159, 21542, 26377, 26435, 38480, 35775, 38382,
      35813] @ ascii '' bot/model'' @ [65292, 25110] @ ascii '' key '' @
     [26159, 21542, 24050, 36807, 26399, 12290]"

definition msg_403_tail :: pystr where
  "msg_403_tail =
     [65306, 26080, 26435, 38480] @ ascii ''(403 Forbidden)'' @
     [12290, 10, 35831, 30830, 35748, 36134, 21495, 26435, 38480, 12289] @
     ascii ''bot/model '' @ [26435, 38480, 65292, 20197, 21450] @ ascii '' key '' @
     [26159, 21542, 32465, 23450, 20102, 27491, 30830, 30340, 39033, 30446] @ ascii ''/'' @
     [31354, 38388, 12290]"

definition msg_400_head :: pystr where
  "msg_400_head =
     [65306, 35831, 27714, 21442, 25968, 38169, 35823] @ ascii ''(400 Bad Request)'' @
     [12290, 10, 26381, 21153, 31471, 36820, 22238, 65306]"

definition msg_400_tail :: pystr where
  "msg_400_tail =
     [10, 25490, 26597, 24314, 35758, 65306, 10] @ ascii ''- '' @
     [33509, 20320, 20256, 30340, 26159, 27169, 22411, 21517, 65288, 22914] @
     ascii '' deepseek-xxx'' @ [65289, 65292, 35831, 25226] @ ascii '' VOLCES_ENDPOINT '' @
     [35774, 20026] @ ascii '' '' @ [96] @
     ascii ''https://ark.cn-beijing.volces.com/api/v3/chat/completions'' @ [96, 10] @
     ascii ''- '' @ [33509, 20320, 22362, 25345, 29992] @ ascii '' bots '' @
     [25509, 21475, 65292, 35831, 35774, 32622] @ ascii '' VOLCES_BOT_ID '' @
     [20026, 20320, 30340] @ ascii '' bot_id'' @ [65292, 24182, 20445, 25345] @
     ascii '' endpoint '' @ [20026] @ ascii '' '' @ [96] @
     ascii ''/api/v3/bots/chat/completions'' @ [96]"

definition msg_request :: pystr where
  "msg_request = [65306, 32593, 32476, 25110, 35831, 27714, 24322, 24120, 65306]"

definition msg_detail :: pystr where
  "msg_detail = ascii '' | '' @ [35814, 24773, 65306]"

definition msg_parse :: pystr where
  "msg_parse = [65306, 36820, 22238, 35299, 26512, 24322, 24120, 65306]"

definition msg_unknown :: pystr where
  "msg_unknown = [65306, 26410, 30693, 24322, 24120, 65306]"

text \<open>
  The detail shown for a response: \<open>resp.json()\<close>, or the stripped text when that
  raises. An f-string shows a string as it is and any other value through \<open>str\<close>, the
  parameter \<open>fmt\<close>.
\<close>

definition detail_of :: "response \<Rightarrow> json" where
  "detail_of resp =
     (case json_result resp of
        Inr d \<Rightarrow> d
      | Inl e \<Rightarrow> JStr (strip (str_of (py_or (resp_text resp) (Some [])))))"

definition format_detail :: "(json \<Rightarrow> pystr) \<Rightarrow> json \<Rightarrow> pystr" where
  "format_detail fmt d = (case d of JStr s \<Rightarrow> s | _ \<Rightarrow> fmt d)"

text \<open>The three \<open>except\<close> clauses of \<open>chat_volces\<close>, in the order of the source.\<close>

definition handle_exc :: "(json \<Rightarrow> pystr) \<Rightarrow> exc \<Rightarrow> json" where
  "handle_exc fmt e =
     (if is_request_exception e then
        (case exc_response e of
           Some resp \<Rightarrow>
             JStr (call_failed @ msg_request @ exc_text e @ msg_detail
                   @ format_detail fmt (detail_of resp))
         | None \<Rightarrow> JStr (call_failed @ msg_request @ exc_text e))
      else if is_parse_error e then JStr (call_failed @ msg_parse @ exc_text e)
      else JStr (call_failed @ msg_unknown @ exc_text e))"

text \<open>
  The parameters that stand for the world outside the function: \<open>getenv\<close>
  (\<open>os.getenv\<close>), \<open>post\<close> (\<open>requests.post\<close> on the URL, the JSON payload, the headers
  and the timeout: it raises or responds), \<open>fmt\<close> and \<open>describe\<close> as above, and
  \<open>status_text\<close>, the text of the \<open>HTTPError\<close> that \<open>raise_for_status\<close> raises for a
  status from 400 to 599.
\<close>

record chat_env =
  getenv :: "pystr \<rightharpoonup> pystr"
  post :: "pystr \<Rightarrow> json \<Rightarrow> (pystr \<times> pystr) list \<Rightarrow> int \<Rightarrow> exc + response"
  fmt :: "json \<Rightarrow> pystr"
  describe :: "lookup_failure \<Rightarrow> pystr"
  status_text :: "response \<Rightarrow> pystr"
  default_key :: pystr

definition messages :: "pystr \<Rightarrow> pystr \<Rightarrow> json" where
  "messages system user =
     JArr [JObj [(ascii ''role'', JStr (ascii ''system'')), (ascii ''content'', JStr system)],
           JObj [(ascii ''role'', JStr (ascii ''user'')), (ascii ''content'', JStr user)]]"

definition after_post :: "chat_env \<Rightarrow> exc + response \<Rightarrow> json" where
  "after_post env outcome =
     (case outcome of
        Inl e \<Rightarrow> handle_exc (fmt env) e
      | Inr resp \<Rightarrow>
          if status_code resp = 401 then JStr (call_failed @ msg_401_tail)
          else if status_code resp = 403 then JStr (call_failed @ msg_403_tail)
          else if status_code resp = 400 then
            JStr (call_failed @ msg_400_head @ format_detail (fmt env) (detail_of resp)
                  @ msg_400_tail)
          else if 400 \<le> status_code resp \<and> status_code resp < 600 then
            handle_exc (fmt env) (Exc True False (Some resp) (status_text env resp))
          else
            (case json_result resp of
               Inl e \<Rightarrow> handle_exc (fmt env) e
             | Inr data \<Rightarrow>
                 (case reply_content (describe env) data of
                    Inl e \<Rightarrow> handle_exc (fmt env) e
                  | Inr content_str \<Rightarrow> content_str)))"

definition chat_volces ::
  "chat_env \<Rightarrow> pystr \<Rightarrow> pystr \<Rightarrow> int \<Rightarrow> pystr option \<Rightarrow> pystr option \<Rightarrow> pystr \<Rightarrow> json" where
  "chat_volces env system user timeout api_key model endpoint =
     (let key = resolved_key (getenv env) (default_key env) api_key;
          mdl = resolved_model (getenv env) model;
          resolved_endpoint =
            strip (str_of (py_or (getenv env (ascii ''VOLCES_ENDPOINT'')) (Some endpoint)));
          resolved_bot_id =
            strip (str_of (py_or (getenv env (ascii ''VOLCES_BOT_ID'')) (Some [])))
      in if is_placeholder key \<or> is_placeholder mdl then JStr msg_not_configured
         else
           (let headers = [(ascii ''Authorization'', ascii ''Bearer '' @ str_of key),
                           (ascii ''Content-Type'', ascii ''application/json'')];
                is_bots_endpoint = py_in (ascii ''/bots/'') resolved_endpoint;
                payload =
                  (if is_bots_endpoint \<and> resolved_bot_id \<noteq> [] then
                     JObj [(ascii ''bot_id'', JStr resolved_bot_id),
                           (ascii ''stream'', JBool False),
                           (ascii ''messages'', messages system user)]
                   else
                     JObj [(ascii ''model'', JStr (str_of mdl)),
                           (ascii ''stream'', JBool False),
                           (ascii ''messages'', messages system user)])
            in after_post env (post env resolved_endpoint payload headers timeout)))"

text \<open>
  The specification's "consists solely of x", as the code tests it: after stripping
  surrounding whitespace the string is not empty and holds only the letters x and X.
\<close>

definition only_x :: "pystr \<Rightarrow> bool" where
  "only_x s \<longleftrightarrow> strip s \<noteq> [] \<and> set (strip s) \<subseteq> {120, 88}"

text \<open>Sample surroundings: no environment variables, a fixed outcome of the HTTP call.\<close>

definition env_sample :: "(exc + response) \<Rightarrow> chat_env" where
  "env_sample outcome =
     \<lparr>getenv = Map.empty, post = (\<lambda>url payload headers timeout. outcome),
      fmt = (\<lambda>j. ascii ''{}''), describe = (\<lambda>f. ascii ''lookup''),
      status_text = (\<lambda>r. ascii ''status''), default_key = ascii ''k-default''\<rparr>"

text \<open>
  Sample surroundings that answer one request only: the outcome comes when the URL, the
  payload and the headers are the given ones, and the connection is refused otherwise.
\<close>

definition env_strict ::
  "pystr \<Rightarrow> json \<Rightarrow> (pystr \<times> pystr) list \<Rightarrow> (exc + response) \<Rightarrow> chat_env" where
  "env_strict url payload headers outcome =
     \<lparr>getenv = Map.empty,
      post = (\<lambda>u p h timeout.
                if u = url \<and> p = payload \<and> h = headers then outcome
                else Inl (Exc True False None (ascii ''refused''))),
      fmt = (\<lambda>j. ascii ''{}''), describe = (\<lambda>f. ascii ''lookup''),
      status_text = (\<lambda>r. ascii ''status''), default_key = ascii ''k-default''\<rparr>"

definition request_sample :: json where
  "request_sample =
     JObj [(ascii ''model'', JStr MODEL), (ascii ''stream'', JBool False),
           (ascii ''messages'', messages (ascii ''sys'') (ascii ''usr''))]"

definition headers_sample :: "(pystr \<times> pystr) list" where
  "headers_sample =
     [(ascii ''Authorization'', ascii ''Bearer sk-1''),
      (ascii ''Content-Type'', ascii ''application/json'')]"

definition reply_sample :: "json \<Rightarrow> exc + response" where
  "reply_sample c =
     Inr (Response 200
       (Inr (JObj [(ascii ''choices'',
           JArr [JObj [(ascii ''message'', JObj [(ascii ''content'', c)])]])]))
       None)"

section \<open>Run-mode classifier\<close>

datatype run_mode = LIVE_MORNING | MIDDAY_SUMMARY | LIVE_AFTERNOON | POST_MARKET

text \<open>
  \<open>date.weekday()\<close> as the standard library computes it: the proleptic Gregorian
  ordinal of the date (day 1 is Monday, 1 January of year 1), plus 6, modulo 7, so that
  Monday is 0 and Sunday is 6.
\<close>

definition is_leap :: "nat \<Rightarrow> bool" where
  "is_leap y \<longleftrightarrow> y mod 4 = 0 \<and> (y mod 100 \<noteq> 0 \<or> y mod 400 = 0)"

definition days_before_year :: "nat \<Rightarrow> nat" where
  "days_before_year y = (y - 1) * 365 + (y - 1) div 4 - (y - 1) div 100 + (y - 1) div 400"

definition days_in_month :: "nat \<Rightarrow> nat \<Rightarrow> nat" where
  "days_in_month y m =
     (if m = 2 then (if is_leap y then 29 else 28)
      else if m = 4 \<or> m = 6 \<or> m = 9 \<or> m = 11 then 30
      else 31)"

definition days_before_month :: "nat \<Rightarrow> nat \<Rightarrow> nat" where
  "days_before_month y m = sum_list (map (days_in_month y) [1..<m])"

definition ymd2ord :: "nat \<Rightarrow> nat \<Rightarrow> nat \<Rightarrow> nat" where
  "ymd2ord y m d = days_before_year y + days_before_month y m + d"

definition weekday :: "datetime \<Rightarrow> nat" where
  "weekday now = (ymd2ord (year now) (month now) (day now) + 6) mod 7"

type_synonym date = "nat \<times> nat \<times> nat"

definition date_of :: "datetime \<Rightarrow> date" where
  "date_of now = (year now, month now, day now)"

text \<open>\<open>_pick_col\<close>: the first candidate label the table has.\<close>

fun pick_col :: "table \<Rightarrow> pystr list \<Rightarrow> pystr option" where
  "pick_col df [] = None"
| "pick_col df (col # candidates) =
     (if col \<in> set (columns df) then Some col else pick_col df candidates)"

text \<open>
  \<open>_is_trade_day\<close>. \<open>calendar\<close> is the outcome of \<open>self._get_trade_calendar()\<close>;
  \<open>to_date\<close> stands for \<open>pd.to_datetime(..., errors="coerce").dt.date\<close> on one cell,
  \<open>None\<close> being a date that could not be read (dropped by \<open>dropna\<close>). The candidate
  labels are \<open>trade_date\<close>, the Chinese word for date (26085, 26399) and \<open>date\<close>. Every
  exception inside the body is caught and gives \<open>None\<close>.
\<close>

definition is_trade_day :: "(exn + pyret) \<Rightarrow> (cell \<Rightarrow> date option) \<Rightarrow> date \<Rightarrow> bool option" where
  "is_trade_day calendar to_date date_obj =
     (case calendar of
        Inl e \<Rightarrow> None
      | Inr RNone \<Rightarrow> None
      | Inr ROther \<Rightarrow> None
      | Inr (RTable df) \<Rightarrow>
          if df_empty df then None
          else
            (case pick_col df [ascii ''trade_date'', [26085, 26399], ascii ''date''] of
               None \<Rightarrow> None
             | Some date_col \<Rightarrow>
                 if date_col = [] then None
                 else
                   (case get_column df date_col of
                      Inl e \<Rightarrow> None
                    | Inr cells \<Rightarrow> Some (date_obj \<in> set (List.map_filter to_date cells)))))"

text \<open>
  The specification's reading of "the fetched trading calendar". The calendar is
  available when the fetch returned a table that has at least one row and, among its
  columns, one of the labels \<open>trade_date\<close>, (26085, 26399) or \<open>date\<close>; the days it
  lists are the dates that can be read in the first of these labels the table has. In
  every other case (the fetch raised, or returned no table, an empty table or a table
  without a date column) the calendar is unavailable.
\<close>

definition calendar_days :: "(exn + pyret) \<Rightarrow> (cell \<Rightarrow> date option) \<Rightarrow> date set option" where
  "calendar_days calendar to_date =
     (case calendar of
        Inr (RTable df) \<Rightarrow>
          (case find (\<lambda>label. label \<in> set (columns df))
                  [ascii ''trade_date'', [26085, 26399], ascii ''date''] of
             Some label \<Rightarrow>
               if rows df = [] then None
               else Some (set (List.map_filter
                                 (\<lambda>row. to_date (cell_at (columns df) row label)) (rows df)))
           | None \<Rightarrow> None)
      | _ \<Rightarrow> None)"

text \<open>The classification at the head of \<open>run_analysis\<close>.\<close>

definition trading_day_of :: "bool option \<Rightarrow> datetime \<Rightarrow> bool" where
  "trading_day_of trade_day now =
     (case trade_day of Some b \<Rightarrow> b | None \<Rightarrow> weekday now < 5)"

definition mode_of :: "bool \<Rightarrow> datetime \<Rightarrow> run_mode" where
  "mode_of trading now =
     (if trading then
        (if 9 \<le> hour now \<and> hour now < 12 then LIVE_MORNING
         else if 12 \<le> hour now \<and> hour now < 13 then MIDDAY_SUMMARY
         else if 13 \<le> hour now \<and> hour now < 15 then LIVE_AFTERNOON
         else POST_MARKET)
      else POST_MARKET)"

section \<open>The analyzer object\<close>

text \<open>
  The fields of \<open>AdvancedStockAnalyzer\<close>. An entry of \<open>analysis_result\<close> is a
  dictionary (what the analyzers write, \<open>{}\<close> being \<open>Dict []\<close>), a table (the sector heat
  map), the list of analysed ETFs, the final ranking, or the narrative reply.
  \<open>stock_to_industry_map\<close> holds whatever \<open>cache_data\<close> returned: a dictionary, or the
  empty table after a failed producer.
\<close>

record etf =
  etf_name :: pystr
  etf_code :: pystr
  technical_status :: pystr
  base_score :: pyfloat
  change_pct :: pyfloat

record score_row =
  row_name :: pystr
  row_code :: pystr
  row_change :: pyfloat
  final_score :: pyfloat
  summary :: pystr
  theme :: pystr

datatype result =
    Dict "(pystr \<times> json) list" | Frame table | Etfs "etf list" | Ranking "score_row list"
  | Reply json

record analyzer =
  data :: "pystr \<rightharpoonup> table"
  analysis_result :: "pystr \<rightharpoonup> result"
  stock_to_industry_map :: pyobj
  run_mode :: "run_mode option"
  is_trading_day :: "bool option"

definition put_result :: "pystr \<Rightarrow> result \<Rightarrow> analyzer \<Rightarrow> analyzer" where
  "put_result k r self = self\<lparr>analysis_result := (analysis_result self)(k \<mapsto> r)\<rparr>"

text \<open>
  The shape shared by the nine analyzers whose whole body sits in
  \<open>try: ... except Exception\<close>: the body computes the dictionary to store or raises; on
  an exception the handler stores \<open>{}\<close> under the analyzer's key. The bodies themselves
  are parameters.
\<close>

type_synonym body = "analyzer \<Rightarrow> exn + (pystr \<times> json) list"

definition isolated :: "pystr \<Rightarrow> body \<Rightarrow> analyzer \<Rightarrow> analyzer" where
  "isolated k body self =
     (case body self of
        Inr payload \<Rightarrow> put_result k (Dict payload) self
      | Inl e \<Rightarrow> put_result k (Dict []) self)"

section \<open>Sector heat: \<open>analyze_sector_strength\<close>\<close>

text \<open>The column labels of the source, as code points.\<close>

definition L_name :: pystr where \<comment> \<open>name\<close>
  "L_name = [21517, 31216]"

definition L_sector_name :: pystr where \<comment> \<open>sector name\<close>
  "L_sector_name = [26495, 22359, 21517, 31216]"

definition L_change :: pystr where \<comment> \<open>change percent\<close>
  "L_change = [28072, 36300, 24133]"

definition L_sector_change :: pystr where \<comment> \<open>sector change percent\<close>
  "L_sector_change = [26495, 22359, 28072, 36300, 24133]"

definition L_inflow_today :: pystr where \<comment> \<open>today's main-fund net inflow, net amount\<close>
  "L_inflow_today = [20170, 26085, 20027, 21147, 20928, 27969, 20837] @ ascii ''-'' @ [20928, 39069]"

definition L_inflow :: pystr where \<comment> \<open>main-fund net inflow\<close>
  "L_inflow = [20027, 21147, 20928, 27969, 20837]"

definition L_stock_code :: pystr where \<comment> \<open>stock code\<close>
  "L_stock_code = [32929, 31080, 20195, 30721]"

definition L_code :: pystr where \<comment> \<open>code\<close>
  "L_code = [20195, 30721]"

definition L_industry :: pystr where \<comment> \<open>exact industry\<close>
  "L_industry = [31934, 30830, 34892, 19994]"

definition L_count :: pystr where \<comment> \<open>number of stocks rising in volume and price\<close>
  "L_count = [37327, 20215, 40784, 21319, 23478, 25968]"

definition L_fund_score :: pystr where \<comment> \<open>fund-strength score\<close>
  "L_fund_score = [36164, 37329, 24378, 24230, 20998]"

definition L_pop_score :: pystr where \<comment> \<open>popularity score\<close>
  "L_pop_score = [20154, 27668, 24378, 24230, 20998]"

definition L_heat :: pystr where \<comment> \<open>heat value\<close>
  "L_heat = [28909, 21147, 20540]"

text \<open>Table operations: \<open>rename(columns=...)\<close>, reading a column, \<open>df[c] = values\<close>.\<close>

definition rename_columns :: "(pystr \<times> pystr) list \<Rightarrow> table \<Rightarrow> table" where
  "rename_columns d df =
     df\<lparr>columns := map (\<lambda>c. case map_of d c of Some c' \<Rightarrow> c' | None \<Rightarrow> c) (columns df)\<rparr>"

definition cells_of :: "table \<Rightarrow> pystr \<Rightarrow> cell list" where
  "cells_of df c = map (\<lambda>row. cell_at (columns df) row c) (rows df)"

definition set_column :: "table \<Rightarrow> pystr \<Rightarrow> cell list \<Rightarrow> table" where
  "set_column df c vs =
     (let cs = columns df;
          cs' = (if c \<in> set cs then cs else cs @ [c])
      in \<lparr>columns = cs',
          rows = map (\<lambda>(row, v). map (\<lambda>c'. if c' = c then v else cell_at cs row c') cs')
                     (zip (rows df) vs)\<rparr>)"

text \<open>
  \<open>astype(str)\<close> on a cell (the text of a float is the parameter \<open>str_float\<close>),
  \<open>str.zfill\<close>, and \<open>pd.to_numeric(..., errors="coerce")\<close> on a cell.
\<close>

definition astype_str :: "(pyfloat \<Rightarrow> pystr) \<Rightarrow> cell \<Rightarrow> pystr" where
  "astype_str str_float c =
     (case c of CNone \<Rightarrow> ascii ''None'' | CFloat f \<Rightarrow> str_float f | CStr s \<Rightarrow> s)"

definition zfill :: "nat \<Rightarrow> pystr \<Rightarrow> pystr" where
  "zfill width s =
     (if width \<le> length s then s
      else (case s of
              [] \<Rightarrow> replicate width 48
            | c # cs \<Rightarrow>
                if c = 43 \<or> c = 45 then c # replicate (width - length s) 48 @ cs
                else replicate (width - length s) 48 @ s))"

definition to_numeric_cell :: "(pystr \<Rightarrow> pyfloat) \<Rightarrow> cell \<Rightarrow> pyfloat" where
  "to_numeric_cell to_numeric c =
     (case c of CNone \<Rightarrow> NaN | CFloat f \<Rightarrow> f | CStr s \<Rightarrow> to_numeric s)"

definition fillna0 :: "pyfloat \<Rightarrow> pyfloat" where
  "fillna0 v = (case v of NaN \<Rightarrow> Fin 0 | Fin x \<Rightarrow> Fin x)"

text \<open>
  Double precision. Every arithmetic operation of this section returns the double
  nearest to its exact result, a tie going to the neighbour with the even significand.
  A double has a significand of 53 bits: with \<open>e\<close> the exponent of \<open>x\<close> (the integer
  with \<open>2 ^ e \<le> |x| < 2 ^ (e + 1)\<close>, found by halving the integer part of \<open>|x|\<close> or
  of its inverse), the doubles around \<open>x\<close> are the multiples of
  \<open>2 ^ (e - 52)\<close>; below the exponent \<open>-1022\<close> the spacing stays \<open>2 ^ (-1074)\<close>. The
  numbers rounded in this section are ranks, percentiles and scores between 0 and
  10000, so no result overflows.

  \<open>round_half_even\<close> is the nearest integer with halves going to the even one, the
  rounding of \<open>np.rint\<close>.
\<close>

definition round_half_even :: "real \<Rightarrow> int" where
  "round_half_even r =
     (let f = \<lfloor>r\<rfloor>; d = r - of_int f
      in if d < 1 / 2 then f
         else if 1 / 2 < d then f + 1
         else if even f then f else f + 1)"

function ilog2 :: "int \<Rightarrow> int" where
  "ilog2 n = (if n < 2 then 0 else ilog2 (n div 2) + 1)"
  by pat_completeness auto

termination
  by (relation "measure nat") auto

declare ilog2.simps [simp del]

definition clog2 :: "int \<Rightarrow> int" where
  "clog2 n = (if n \<le> 1 then 0 else ilog2 (n - 1) + 1)"

definition exponent_of :: "real \<Rightarrow> int" where
  "exponent_of x =
     (if 1 \<le> \<bar>x\<bar> then ilog2 \<lfloor>\<bar>x\<bar>\<rfloor> else - clog2 \<lceil>1 / \<bar>x\<bar>\<rceil>)"

definition pow2 :: "int \<Rightarrow> real" where
  "pow2 e = (if 0 \<le> e then 2 ^ nat e else 1 / 2 ^ nat (- e))"

definition ulp :: "real \<Rightarrow> real" where
  "ulp x = pow2 (max (exponent_of x) (- 1022) - 52)"

definition to_double :: "real \<Rightarrow> real" where
  "to_double x = (if x = 0 then 0 else of_int (round_half_even (x / ulp x)) * ulp x)"

text \<open>
  \<open>rank(pct=True)\<close>: \<open>nan\<close> stays \<open>nan\<close>; a number gets the average of the positions
  its equals occupy among the numbers in ascending order (the sum of the positions
  divided by their count, as a double), divided by how many numbers there are.
\<close>

definition finite_values :: "pyfloat list \<Rightarrow> real list" where
  "finite_values vs = List.map_filter finite_of vs"

definition average_rank :: "real list \<Rightarrow> real \<Rightarrow> real" where
  "average_rank xs x =
     to_double (real (length (filter (\<lambda>y. y < x) xs))
                + (real (length (filter (\<lambda>y. y = x) xs)) + 1) / 2)"

definition pct_of :: "pyfloat list \<Rightarrow> pyfloat \<Rightarrow> pyfloat" where
  "pct_of vs v =
     (let xs = finite_values vs
      in case v of
           NaN \<Rightarrow> NaN
         | Fin x \<Rightarrow> Fin (to_double (average_rank xs x / real (length xs))))"

definition rank_pct :: "pyfloat list \<Rightarrow> pyfloat list" where
  "rank_pct vs = map (pct_of vs) vs"

text \<open>
  The product of a float with a constant and the sum of two floats, with \<open>nan\<close>
  propagating. \<open>round(2)\<close> is the rounding of numpy: times 100, to the nearest integer
  (halves to even), divided by 100. The literals \<open>0.7\<close> and \<open>0.3\<close> of the source are
  the doubles nearest to these numbers.
\<close>

definition dscale :: "real \<Rightarrow> pyfloat \<Rightarrow> pyfloat" where
  "dscale c v = (case v of NaN \<Rightarrow> NaN | Fin x \<Rightarrow> Fin (to_double (c * x)))"

definition dadd :: "pyfloat \<Rightarrow> pyfloat \<Rightarrow> pyfloat" where
  "dadd a b =
     (case a of
        NaN \<Rightarrow> NaN
      | Fin x \<Rightarrow> (case b of NaN \<Rightarrow> NaN | Fin y \<Rightarrow> Fin (to_double (x + y))))"

definition round2 :: "pyfloat \<Rightarrow> pyfloat" where
  "round2 v =
     (case v of
        NaN \<Rightarrow> NaN
      | Fin x \<Rightarrow> Fin (to_double (of_int (round_half_even (to_double (x * 100))) / 100)))"

definition heat_formula :: "pyfloat \<Rightarrow> pyfloat \<Rightarrow> pyfloat" where
  "heat_formula pop fund =
     round2 (dadd (dscale (to_double (7 / 10)) pop) (dscale (to_double (3 / 10)) fund))"

text \<open>
  \<open>sort_values(by=..., ascending=False)\<close>: descending, \<open>nan\<close> last. Rows with equal
  keys keep their order here; pandas leaves their order to its sorting routine.
\<close>

fun before_desc :: "pyfloat \<Rightarrow> pyfloat \<Rightarrow> bool" where
  "before_desc a NaN = True"
| "before_desc NaN (Fin y) = False"
| "before_desc (Fin x) (Fin y) = (y \<le> x)"

fun insert_desc :: "('r \<Rightarrow> pyfloat) \<Rightarrow> 'r \<Rightarrow> 'r list \<Rightarrow> 'r list" where
  "insert_desc key r [] = [r]"
| "insert_desc key r (x # xs) =
     (if before_desc (key r) (key x) then r # x # xs else x # insert_desc key r xs)"

definition sort_desc :: "('r \<Rightarrow> pyfloat) \<Rightarrow> 'r list \<Rightarrow> 'r list" where
  "sort_desc key rs = foldr (insert_desc key) rs []"

definition float_of_cell :: "cell \<Rightarrow> pyfloat" where
  "float_of_cell c = (case c of CFloat f \<Rightarrow> f | _ \<Rightarrow> NaN)"

definition sort_values_desc :: "pystr \<Rightarrow> table \<Rightarrow> table" where
  "sort_values_desc by df =
     df\<lparr>rows := sort_desc (\<lambda>row. float_of_cell (cell_at (columns df) row by)) (rows df)\<rparr>"

text \<open>
  \<open>groupby(industry)[code].count()\<close>: every industry that occurs, with the number of
  rows carrying it (rows without an industry belong to no group).
\<close>

definition group_counts :: "pystr list \<Rightarrow> (pystr \<times> nat) list" where
  "group_counts inds = map (\<lambda>i. (i, length (filter (\<lambda>j. j = i) inds))) (remdups inds)"

text \<open>
  \<open>pd.merge(industry_flow, ljqs_counts, left_on=sector name, right_on=industry,
  how="left")\<close>: the left rows in their order, each extended by the industry and the
  count of the group whose industry equals its sector name, or by two \<open>nan\<close>. The merge
  raises \<open>KeyError\<close> when the left table has no sector-name column. A left column that
  bears the label of one of the two right columns is renamed with the suffix \<open>_x\<close> and
  the right one with \<open>_y\<close>.
\<close>

definition merge_left :: "table \<Rightarrow> (pystr \<times> nat) list \<Rightarrow> exn + table" where
  "merge_left left counts =
     (let cs = columns left
      in if L_sector_name \<notin> set cs then Inl KeyError
         else
           Inr \<lparr>columns =
                  map (\<lambda>c. if c = L_industry \<or> c = L_count then c @ ascii ''_x'' else c) cs
                  @ [if L_industry \<in> set cs then L_industry @ ascii ''_y'' else L_industry,
                     if L_count \<in> set cs then L_count @ ascii ''_y'' else L_count],
                rows =
                  map (\<lambda>row. reindex cs cs row @
                         (case cell_at cs row L_sector_name of
                            CStr nm \<Rightarrow>
                              (case map_of counts nm of
                                 Some n \<Rightarrow> [CStr nm, CFloat (Fin (real n))]
                               | None \<Rightarrow> [CFloat NaN, CFloat NaN])
                          | _ \<Rightarrow> [CFloat NaN, CFloat NaN]))
                      (rows left)\<rparr>)"

text \<open>
  The scoring part of \<open>analyze_sector_strength\<close>, from the cleaning of the count column
  to the heat column: the fund-strength score is the percentile rank of the inflow times
  100 when the inflow column exists and has at least one number, and the neutral 50
  otherwise; the popularity score is the percentile rank of the count times 100; the heat
  is read off the two score columns.
\<close>

definition heat_table :: "(pystr \<Rightarrow> pyfloat) \<Rightarrow> table \<Rightarrow> table" where
  "heat_table to_numeric flow =
     (let t1 = set_column flow L_count
                 (map (\<lambda>c. CFloat (fillna0 (to_numeric_cell to_numeric c))) (cells_of flow L_count));
          t2 = (if L_inflow \<in> set (columns t1) then
                  (let fund_net = map (to_numeric_cell to_numeric) (cells_of t1 L_inflow)
                   in if list_ex (\<lambda>v. \<not> isna v) fund_net
                      then set_column t1 L_fund_score
                             (map (\<lambda>v. CFloat (dscale 100 v)) (rank_pct fund_net))
                      else set_column t1 L_fund_score
                             (replicate (length (rows t1)) (CFloat (Fin 50))))
                else set_column t1 L_fund_score
                       (replicate (length (rows t1)) (CFloat (Fin 50))));
          t3 = set_column t2 L_pop_score
                 (map (\<lambda>v. CFloat (dscale 100 v))
                    (rank_pct (map float_of_cell (cells_of t2 L_count))))
      in set_column t3 L_heat
           (map (\<lambda>(p, f). CFloat (heat_formula (float_of_cell p) (float_of_cell f)))
              (zip (cells_of t3 L_pop_score) (cells_of t3 L_fund_score))))"

definition store_heat_map :: "(pystr \<Rightarrow> pyfloat) \<Rightarrow> table \<Rightarrow> analyzer \<Rightarrow> analyzer" where
  "store_heat_map to_numeric flow self =
     put_result (ascii ''sector_heat_map'')
       (Frame (sort_values_desc L_heat (heat_table to_numeric flow))) self"

text \<open>
  The steps of \<open>analyze_sector_strength\<close> before the scoring, one definition for each
  local value of the source: the renamed fund-flow table; the stock codes as six-digit
  strings; their industries under \<open>stock_to_industry_map\<close> (\<open>None\<close> where the map has
  no entry, \<open>nan\<close> in the table); the co-rising table with the two columns added; the
  counts per industry; and the fund-flow table with a count of zero everywhere.
\<close>

definition renamed_flow :: "table \<Rightarrow> table" where
  "renamed_flow flow0 =
     rename_columns [(L_name, L_sector_name), (L_change, L_sector_change),
                     (L_inflow_today, L_inflow)] flow0"

definition stock_code_strings :: "(pyfloat \<Rightarrow> pystr) \<Rightarrow> cell list \<Rightarrow> pystr list" where
  "stock_code_strings str_float stock_codes =
     map (\<lambda>c. zfill 6 (astype_str str_float c)) stock_codes"

definition exact_industries :: "(pystr \<times> pystr) list \<Rightarrow> pystr list \<Rightarrow> pystr option list" where
  "exact_industries d codes = map (map_of d) codes"

definition tag_ljqs :: "table \<Rightarrow> pystr list \<Rightarrow> pystr option list \<Rightarrow> table" where
  "tag_ljqs ljqs_df codes inds =
     set_column (set_column ljqs_df L_code (map CStr codes)) L_industry
       (map (\<lambda>i. case i of Some nm \<Rightarrow> CStr nm | None \<Rightarrow> CFloat NaN) inds)"

definition ljqs_counts :: "pystr option list \<Rightarrow> (pystr \<times> nat) list" where
  "ljqs_counts inds = group_counts (List.map_filter id inds)"

definition zero_counts :: "table \<Rightarrow> table" where
  "zero_counts industry_flow =
     set_column industry_flow L_count
       (replicate (length (rows industry_flow)) (CFloat (Fin 0)))"

text \<open>
  \<open>analyze_sector_strength\<close> returns the analyzer object as it leaves it, together
  with the exception that escapes it, if any: the method has no \<open>try\<close>. It raises
  \<open>ValueError\<close> when the co-rising table is not empty and \<open>stock_to_industry_map\<close> is
  a table (the truth value of a \<open>DataFrame\<close> is refused), and \<open>KeyError\<close> when a needed
  column is missing. The two columns it adds to the co-rising table are added in place,
  to the table held in \<open>data\<close>.
\<close>

definition analyze_sector_strength ::
  "(pyfloat \<Rightarrow> pystr) \<Rightarrow> (pystr \<Rightarrow> pyfloat) \<Rightarrow> analyzer \<Rightarrow> exn option \<times> analyzer" where
  "analyze_sector_strength str_float to_numeric self =
     (case data self (ascii ''industry_fund_flow'') of
        None \<Rightarrow> (None, put_result (ascii ''sector_heat_map'') (Frame empty_df) self)
      | Some flow0 \<Rightarrow>
          if df_empty flow0
          then (None, put_result (ascii ''sector_heat_map'') (Frame empty_df) self)
          else
            (let industry_flow = renamed_flow flow0;
                 ljqs_df = (case data self (ascii ''rank_ljqs'') of
                              Some t \<Rightarrow> t | None \<Rightarrow> empty_df)
             in if df_empty ljqs_df
                then (None, store_heat_map to_numeric (zero_counts industry_flow) self)
                else
                  (case stock_to_industry_map self of
                     OFrame m \<Rightarrow> (Some ValueError, self)
                   | ONone \<Rightarrow> (None, store_heat_map to_numeric (zero_counts industry_flow) self)
                   | ODict d \<Rightarrow>
                       if d = []
                       then (None, store_heat_map to_numeric (zero_counts industry_flow) self)
                       else
                         (case get_column ljqs_df L_stock_code of
                            Inl e \<Rightarrow> (Some e, self)
                          | Inr stock_codes \<Rightarrow>
                              (let codes = stock_code_strings str_float stock_codes;
                                   inds = exact_industries d codes;
                                   self1 = self\<lparr>data := (data self)
                                             (ascii ''rank_ljqs'' \<mapsto> tag_ljqs ljqs_df codes inds)\<rparr>
                               in case merge_left industry_flow (ljqs_counts inds) of
                                    Inl e \<Rightarrow> (Some e, self1)
                                  | Inr merged \<Rightarrow>
                                      (case get_column merged L_count of
                                         Inl e \<Rightarrow> (Some e, self1)
                                       | Inr counted \<Rightarrow>
                                           (None, store_heat_map to_numeric merged self1)))))))"

section \<open>Scoring engine: \<open>comprehensive_scoring\<close>\<close>

text \<open>
  \<open>get_etf_sector_and_theme\<close>. The rules are the entries of \<open>map_rules\<close> in the order
  of the source: a pair of sector and theme, and the keywords that select it. The first
  test is for the Hong Kong keywords; a name no rule matches belongs to "other"
  (\<open>L_other\<close>, code points 20854, 20182).
\<close>

definition hk_keywords :: "pystr list" where
  "hk_keywords = [[24658, 29983], ascii ''H'' @ [32929], [28207, 32929], [20013, 27010], [20114, 32852, 32593]]"

definition L_hk :: pystr where
  "L_hk = [28207, 32929]"

definition L_other :: pystr where
  "L_other = [20854, 20182]"

definition map_rules :: "((pystr \<times> pystr) \<times> pystr list) list" where
  "map_rules =
    [(([35777, 21048], [22823, 37329, 34701]),
      [[35777, 21048], [21048, 21830]]),
     (([20445, 38505], [22823, 37329, 34701]),
      [[20445, 38505]]),
     (([38134, 34892], [22823, 37329, 34701]),
      [[38134, 34892]]),
     (([21322, 23548, 20307], [31185, 25216] @ ascii ''/'' @ [21322, 23548, 20307]),
      [[21322, 23548, 20307], [33455, 29255]]),
     (([35745, 31639, 26426], [31185, 25216] @ ascii ''/'' @ [21322, 23548, 20307]),
      [[35745, 31639, 26426], [20449, 21019], [36719, 20214], [20113, 35745, 31639],
       ascii ''AI'', [20154, 24037, 26234, 33021]]),
     (([28040, 36153, 30005, 23376], [31185, 25216] @ ascii ''/'' @ [21322, 23548, 20307]),
      [[28040, 36153, 30005, 23376]]),
     (([36890, 20449, 35774, 22791], [31185, 25216] @ ascii ''/'' @ [21322, 23548, 20307]),
      [ascii ''5G'', [36890, 20449]]),
     (([20809, 23398, 20809, 30005, 23376], [31185, 25216] @ ascii ''/'' @ [21322, 23548, 20307]),
      [[20809, 23398]]),
     (([20809, 20239, 35774, 22791], [22823, 26032, 33021, 28304]),
      [[20809, 20239]]),
     (([30005, 27744], [22823, 26032, 33021, 28304]),
      [[30005, 27744], [38146, 30005], [26032, 33021, 36710], [30005, 21160, 36710]]),
     (([30005, 32593, 35774, 22791], [22823, 26032, 33021, 28304]),
      [[30005, 32593], [29305, 39640, 21387]]),
     (([39135, 21697, 39278, 26009], [22823, 28040, 36153]),
      [[39135, 21697], [39278, 26009], [30333, 37202], [28040, 36153]]),
     (([23478, 30005, 34892, 19994], [22823, 28040, 36153]),
      [[23478, 30005]]),
     (([32654, 23481, 25252, 29702], [22823, 28040, 36153]),
      [[21307, 32654], [32654, 23481]]),
     (([21307, 33647, 21830, 19994], [21307, 30103, 20581, 24247]),
      [[21307, 33647]]),
     (([21307, 30103, 26381, 21153], [21307, 30103, 20581, 24247]),
      [[21307, 30103]]),
     (([20013, 33647], [21307, 30103, 20581, 24247]),
      [[20013, 33647]]),
     (([25151, 22320, 20135, 24320, 21457], [25151, 22320, 20135]),
      [[22320, 20135], [25151, 22320, 20135]]),
     (([28216, 25103], [20256, 23186] @ ascii ''/'' @ [28216, 25103]),
      [[28216, 25103]]),
     (([25991, 21270, 20256, 23186], [20256, 23186] @ ascii ''/'' @ [28216, 25103]),
      [[20256, 23186], [24433, 35270]]),
     (([22269, 38450, 20891, 24037], [20891, 24037]),
      [[20891, 24037], [22269, 38450]]),
     (([29028, 28845, 34892, 19994], [21608, 26399] @ ascii ''/'' @ [26448, 26009]),
      [[29028, 28845]]),
     (([26377, 33394, 37329, 23646], [21608, 26399] @ ascii ''/'' @ [26448, 26009]),
      [[26377, 33394]]),
     (([38050, 38081, 34892, 19994], [21608, 26399] @ ascii ''/'' @ [26448, 26009]),
      [[38050, 38081]]),
     (([21270, 23398, 21407, 26009], [21608, 26399] @ ascii ''/'' @ [26448, 26009]),
      [[21270, 24037]]),
     (([24037, 31243, 26426, 26800], [39640, 31471, 21046, 36896]),
      [[26426, 26800], [21046, 36896]]),
     (([19987, 29992, 35774, 22791], [39640, 31471, 21046, 36896]),
      [[35774, 22791]]),
     (([29289, 27969, 34892, 19994], [20132, 36890, 36816, 36755]),
      [[36816, 36755], [29289, 27969], [33322, 36816], [28207, 21475]]),
     (([20892, 29287, 39282, 28180], [22823, 20892, 19994]),
      [[20892, 19994], [20859, 27542], [30044, 29287]])]"

definition matches :: "pystr \<Rightarrow> pystr list \<Rightarrow> bool" where
  "matches etf_nm keywords = list_ex (\<lambda>kw. py_in kw etf_nm) keywords"

definition get_etf_sector_and_theme :: "pystr \<Rightarrow> pystr \<times> pystr" where
  "get_etf_sector_and_theme etf_nm =
     (if matches etf_nm hk_keywords then (L_hk, L_hk)
      else (case find (\<lambda>(sector_theme, keywords). matches etf_nm keywords) map_rules of
              Some (sector_theme, keywords) \<Rightarrow> sector_theme
            | None \<Rightarrow> (L_other, L_other)))"

text \<open>
  The dictionary \<open>theme_to_heat\<close> built from the rows of the heat map (a later row
  with the same sector name replaces an earlier one), and \<open>theme_to_heat.get(sector, 50)\<close>.
\<close>

definition theme_to_heat :: "table \<Rightarrow> (cell \<times> cell) list" where
  "theme_to_heat heat_map =
     map (\<lambda>row. (cell_at (columns heat_map) row L_sector_name,
                  cell_at (columns heat_map) row L_heat)) (rows heat_map)"

definition heat_lookup :: "(cell \<times> cell) list \<Rightarrow> pystr \<Rightarrow> cell" where
  "heat_lookup t2h sector =
     (case map_of (rev t2h) (CStr sector) of Some v \<Rightarrow> v | None \<Rightarrow> CFloat (Fin 50))"

text \<open>
  Arithmetic on a looked-up heat value: a float cell computes (with \<open>nan\<close>
  propagating), any other cell makes \<open>heat_value - 50\<close> raise \<open>TypeError\<close>.
  \<open>np.clip(score, 0, 5)\<close> is the minimum with 5 of the maximum with 0, and passes
  \<open>nan\<close> through.
\<close>

definition fadd :: "pyfloat \<Rightarrow> pyfloat \<Rightarrow> pyfloat" where
  "fadd a b = (case a of NaN \<Rightarrow> NaN | Fin x \<Rightarrow> (case b of NaN \<Rightarrow> NaN | Fin y \<Rightarrow> Fin (x + y)))"

definition fclip :: "pyfloat \<Rightarrow> real \<Rightarrow> real \<Rightarrow> pyfloat" where
  "fclip v lo hi = (case v of NaN \<Rightarrow> NaN | Fin x \<Rightarrow> Fin (min (max x lo) hi))"

definition fge :: "pyfloat \<Rightarrow> real \<Rightarrow> bool" where
  "fge v c = (case v of NaN \<Rightarrow> False | Fin x \<Rightarrow> c \<le> x)"

definition flt :: "pyfloat \<Rightarrow> real \<Rightarrow> bool" where
  "flt v c = (case v of NaN \<Rightarrow> False | Fin x \<Rightarrow> x < c)"

definition heat_score_of :: "pyfloat \<Rightarrow> pyfloat" where
  "heat_score_of heat_value = fdiv (fadd heat_value (Fin (- 50))) 15"

text \<open>
  The texts of the rationale: \<open>fmt1\<close> stands for the format \<open>.1f\<close> and \<open>fmt_value\<close>
  for the plain rendering of the heat value; the Chinese fragments are kept as code
  points.
\<close>

definition R_tech :: pystr where \<comment> \<open>"technical: "\<close>
  "R_tech = [25216, 26415, 38754] @ ascii '': ''"

definition R_base :: pystr where \<comment> \<open>" (base score: "\<close>
  "R_base = ascii '' ('' @ [22522, 30784, 20998] @ ascii '': ''"

definition R_heat :: pystr where \<comment> \<open>"sector heat: "\<close>
  "R_heat = [26495, 22359, 28909, 21147] @ ascii '': ''"

definition R_heat_value :: pystr where \<comment> \<open>" (heat value: "\<close>
  "R_heat_value = ascii '' ('' @ [28909, 21147, 20540] @ ascii '': ''"

definition R_dip :: pystr where \<comment> \<open>"pullback with the trend intact, possibly a chance to buy low"\<close>
  "R_dip = [22238, 35843, 20294, 36235, 21183, 26410, 30772, 65292, 25110, 20026, 20302, 21560,
      26426, 20250]"

text \<open>The body of the loop over the analysed ETFs, for one ETF.\<close>

definition score_etf ::
  "(pyfloat \<Rightarrow> pystr) \<Rightarrow> (cell \<Rightarrow> pystr) \<Rightarrow> (cell \<times> cell) list \<Rightarrow> etf \<Rightarrow> exn + score_row" where
  "score_etf fmt1 fmt_value t2h e =
     (let (specific_sector, broad_theme) = get_etf_sector_and_theme (etf_name e);
          heat_cell = heat_lookup t2h specific_sector
      in case heat_cell of
           CFloat heat_value \<Rightarrow>
             (let heat_score = heat_score_of heat_value;
                  score = fadd (base_score e) heat_score;
                  reasons = [R_tech @ technical_status e @ R_base @ fmt1 (base_score e)
                               @ ascii '')'',
                             R_heat @ fmt1 heat_score @ R_heat_value @ fmt_value heat_cell
                               @ ascii '')''];
                  final = fclip score 0 5;
                  reasons' = (if fge final (7 / 2) \<and> flt (change_pct e) 0
                              then reasons @ [R_dip] else reasons)
              in Inr \<lparr>row_name = etf_name e, row_code = etf_code e,
                      row_change = change_pct e, final_score = final,
                      summary = join (ascii '' | '') reasons', theme = broad_theme\<rparr>)
         | _ \<Rightarrow> Inl TypeError)"

fun score_all ::
  "(pyfloat \<Rightarrow> pystr) \<Rightarrow> (cell \<Rightarrow> pystr) \<Rightarrow> (cell \<times> cell) list \<Rightarrow> etf list \<Rightarrow>
   exn + score_row list" where
  "score_all fmt1 fmt_value t2h [] = Inr []"
| "score_all fmt1 fmt_value t2h (e # es) =
     (case score_etf fmt1 fmt_value t2h e of
        Inl x \<Rightarrow> Inl x
      | Inr r \<Rightarrow>
          (case score_all fmt1 fmt_value t2h es of
             Inl x \<Rightarrow> Inl x
           | Inr rs \<Rightarrow> Inr (r # rs)))"

text \<open>
  \<open>comprehensive_scoring\<close>: it returns at once when no ETF has been analysed or the
  heat map is empty; it has no \<open>try\<close>, so a missing column of the heat map
  (\<open>KeyError\<close>) or a heat value that is not a float (\<open>TypeError\<close>) escapes.
\<close>

definition comprehensive_scoring ::
  "(pyfloat \<Rightarrow> pystr) \<Rightarrow> (cell \<Rightarrow> pystr) \<Rightarrow> analyzer \<Rightarrow> exn option \<times> analyzer" where
  "comprehensive_scoring fmt1 fmt_value self =
     (case analysis_result self (ascii ''etf_technical'') of
        Some (Etfs etfs) \<Rightarrow>
          if etfs = [] then (None, self)
          else
            (case analysis_result self (ascii ''sector_heat_map'') of
               None \<Rightarrow> (None, self)
             | Some (Frame heat_map) \<Rightarrow>
                 if df_empty heat_map then (None, self)
                 else if L_sector_name \<notin> set (columns heat_map)
                         \<or> L_heat \<notin> set (columns heat_map) then (Some KeyError, self)
                 else
                   (case score_all fmt1 fmt_value (theme_to_heat heat_map) etfs of
                      Inl x \<Rightarrow> (Some x, self)
                    | Inr final_scores \<Rightarrow>
                        (None, put_result (ascii ''final_ranking'')
                                 (Ranking (sort_desc final_score final_scores)) self))
             | Some other \<Rightarrow> (Some AttributeError, self))
      | _ \<Rightarrow> (None, self))"

section \<open>The run: \<open>run_analysis\<close>\<close>

text \<open>
  What a run takes from outside the analyzer object: the clock, the outcome of the
  calendar fetch, the exception escaping \<open>clean_old_cache\<close> (if any), what
  \<open>fetch_data\<close> returns and leaves in \<open>data\<close> and \<open>stock_to_industry_map\<close>, the bodies
  of the nine isolated analyzers, the prompts and surroundings of the narrative call, the
  exception escaping \<open>print_report\<close> (if any), and the text and number conversions.
\<close>

record world =
  w_clock :: datetime
  w_calendar :: "exn + pyret"
  w_to_date :: "cell \<Rightarrow> date option"
  w_clean_old_cache :: "exn option"
  w_fetch_data :: "bool \<times> (pystr \<rightharpoonup> table) \<times> pyobj"
  w_liquidity :: body
  w_turnover :: body
  w_margin_trading :: body
  w_northbound :: body
  w_intermarket :: body
  w_style :: body
  w_limitup :: body
  w_sentiment :: body
  w_market_stage :: body
  w_ai_available :: bool
  w_prompts :: "analyzer \<Rightarrow> exn + (pystr \<times> pystr)"
  w_chat :: chat_env
  w_print_report :: "analyzer \<Rightarrow> exn option"
  w_str_float :: "pyfloat \<Rightarrow> pystr"
  w_to_numeric :: "pystr \<Rightarrow> pyfloat"
  w_fmt1 :: "pyfloat \<Rightarrow> pystr"
  w_fmt_value :: "cell \<Rightarrow> pystr"

definition analyze_market_liquidity :: "world \<Rightarrow> analyzer \<Rightarrow> analyzer" where
  "analyze_market_liquidity w = isolated (ascii ''liquidity'') (w_liquidity w)"

definition analyze_market_turnover :: "world \<Rightarrow> analyzer \<Rightarrow> analyzer" where
  "analyze_market_turnover w = isolated (ascii ''turnover'') (w_turnover w)"

definition analyze_margin_trading :: "world \<Rightarrow> analyzer \<Rightarrow> analyzer" where
  "analyze_margin_trading w = isolated (ascii ''margin_trading'') (w_margin_trading w)"

definition analyze_northbound_fund_flow :: "world \<Rightarrow> analyzer \<Rightarrow> analyzer" where
  "analyze_northbound_fund_flow w = isolated (ascii ''northbound'') (w_northbound w)"

definition analyze_intermarket_relationship :: "world \<Rightarrow> analyzer \<Rightarrow> analyzer" where
  "analyze_intermarket_relationship w = isolated (ascii ''intermarket'') (w_intermarket w)"

definition analyze_market_style :: "world \<Rightarrow> analyzer \<Rightarrow> analyzer" where
  "analyze_market_style w = isolated (ascii ''style'') (w_style w)"

definition analyze_limitup_structure :: "world \<Rightarrow> analyzer \<Rightarrow> analyzer" where
  "analyze_limitup_structure w = isolated (ascii ''limitup'') (w_limitup w)"

definition analyze_market_sentiment :: "world \<Rightarrow> analyzer \<Rightarrow> analyzer" where
  "analyze_market_sentiment w = isolated (ascii ''sentiment'') (w_sentiment w)"

definition analyze_market_stage :: "world \<Rightarrow> analyzer \<Rightarrow> analyzer" where
  "analyze_market_stage w = isolated (ascii ''market_stage'') (w_market_stage w)"

text \<open>
  \<open>analyze_conclusion\<close>: without the narrative tool it stores the text \<open>{}\<close>;
  otherwise it builds the prompts, calls \<open>chat_volces\<close> with its default arguments and
  stores what comes back, and on any exception stores a fixed apology (\<open>msg_ai_broken\<close>).
\<close>

definition ENDPOINT :: pystr where
  "ENDPOINT = ascii ''https://ark.cn-beijing.volces.com/api/v3/chat/completions''"

definition msg_ai_broken :: pystr where
  "msg_ai_broken =
     ascii ''AI'' @
     [20998, 26512, 27169, 22359, 20986, 29616, 24322, 24120, 65292, 35831, 26816, 26597,
      26085, 24535, 12290]"

definition analyze_conclusion :: "world \<Rightarrow> analyzer \<Rightarrow> analyzer" where
  "analyze_conclusion w self =
     (if \<not> w_ai_available w
      then put_result (ascii ''conclusion_raw'') (Reply (JStr (ascii ''{}''))) self
      else
        (case w_prompts w self of
           Inl e \<Rightarrow> put_result (ascii ''conclusion_raw'') (Reply (JStr msg_ai_broken)) self
         | Inr (system_prompt, user_prompt) \<Rightarrow>
             put_result (ascii ''conclusion_raw'')
               (Reply (chat_volces (w_chat w) system_prompt user_prompt 30 None None ENDPOINT))
               self))"

text \<open>
  The analyzers in the order of \<open>run_analysis\<close>. An exception that escapes a step ends
  the run there; the object keeps the state it had.
\<close>

definition pipeline :: "world \<Rightarrow> analyzer \<Rightarrow> exn option \<times> analyzer" where
  "pipeline w self =
     (let s1 = analyze_market_liquidity w self;
          s2 = analyze_market_turnover w s1;
          s3 = analyze_margin_trading w s2;
          s4 = analyze_northbound_fund_flow w s3;
          s5 = analyze_intermarket_relationship w s4;
          s6 = analyze_market_style w s5;
          s7 = analyze_limitup_structure w s6;
          s8 = analyze_market_sentiment w s7
      in case analyze_sector_strength (w_str_float w) (w_to_numeric w) s8 of
           (Some e, s9) \<Rightarrow> (Some e, s9)
         | (None, s9) \<Rightarrow>
             (let s10 = analyze_market_stage w s9
              in case comprehensive_scoring (w_fmt1 w) (w_fmt_value w) s10 of
                   (Some e, s11) \<Rightarrow> (Some e, s11)
                 | (None, s11) \<Rightarrow>
                     (let s12 = analyze_conclusion w s11
                      in (w_print_report w s12, s12))))"

definition run_analysis :: "world \<Rightarrow> analyzer \<Rightarrow> exn option \<times> analyzer" where
  "run_analysis w self =
     (let now = w_clock w;
          trade_day = is_trade_day (w_calendar w) (w_to_date w) (date_of now);
          trading = trading_day_of trade_day now;
          self1 = self\<lparr>is_trading_day := Some trading,
                       run_mode := Some (mode_of trading now)\<rparr>
      in case w_clean_old_cache w of
           Some e \<Rightarrow> (Some e, self1)
         | None \<Rightarrow>
             (case w_fetch_data w of
                (fetched, d, m) \<Rightarrow>
                  (let self2 = self1\<lparr>data := data self1 ++ d, stock_to_industry_map := m\<rparr>
                   in if fetched then pipeline w self2 else (None, self2))))"



text \<open>
  A sample calendar with two trading days (Thursday 4 and Friday 5 January 2024), a
  second one that lists a Saturday under the Chinese label beside a cell that is no
  date, and the reading of their cells as dates.
\<close>

definition calendar_sample :: "exn + pyret" where
  "calendar_sample = Inr (RTable \<lparr>columns = [ascii ''trade_date''],
      rows = [[CStr (ascii ''2024-01-04'')], [CStr (ascii ''2024-01-05'')]]\<rparr>)"

definition calendar_weekend :: "exn + pyret" where
  "calendar_weekend = Inr (RTable \<lparr>columns = [ascii ''note'', [26085, 26399]],
      rows = [[CNone, CStr (ascii ''2024-01-06'')], [CNone, CStr (ascii ''closed'')]]\<rparr>)"

definition to_date_sample :: "cell \<Rightarrow> date option" where
  "to_date_sample c =
     (if c = CStr (ascii ''2024-01-04'') then Some (2024, 1, 4)
      else if c = CStr (ascii ''2024-01-05'') then Some (2024, 1, 5)
      else if c = CStr (ascii ''2024-01-06'') then Some (2024, 1, 6) else None)"

text \<open>
  Sample inputs and the heat map they give, whose scores are doubles:
  \<open>2345624805922133 / 35184372088832\<close> prints as 66.66666666666666, half of it as
  33.33333333333333, and \<open>4339640453436539 / 70368744177664\<close> is the double nearest to
  61.67. Three sectors, securities (35777, 21048), banks (38134, 34892) and
  insurance (20445, 38505); the inflow of the banks is the placeholder \<open>-\<close>. Three
  co-rising stocks, two of them securities firms and one an insurer.
\<close>

definition securities :: pystr where
  "securities = [35777, 21048]"

definition banks :: pystr where
  "banks = [38134, 34892]"

definition insurance :: pystr where
  "insurance = [20445, 38505]"

definition flow_sample :: table where
  "flow_sample =
     \<lparr>columns = [L_name, L_inflow_today],
      rows = [[CStr securities, CFloat (Fin 5)], [CStr banks, CStr (ascii ''-'')],
              [CStr insurance, CFloat (Fin 1)]]\<rparr>"

definition ljqs_sample :: table where
  "ljqs_sample =
     \<lparr>columns = [L_stock_code],
      rows = [[CFloat (Fin 1)], [CStr (ascii ''600000'')], [CStr (ascii ''000002'')]]\<rparr>"

definition ljqs_tagged :: table where
  "ljqs_tagged =
     \<lparr>columns = [L_stock_code, L_code, L_industry],
      rows = [[CFloat (Fin 1), CStr (ascii ''000001''), CStr securities],
              [CStr (ascii ''600000''), CStr (ascii ''600000''), CStr securities],
              [CStr (ascii ''000002''), CStr (ascii ''000002''), CStr insurance]]\<rparr>"

definition industry_sample :: pyobj where
  "industry_sample =
     ODict [(ascii ''000001'', securities), (ascii ''600000'', securities),
            (ascii ''000002'', insurance)]"

definition heat_sample :: table where
  "heat_sample =
     \<lparr>columns = [L_sector_name, L_inflow, L_industry, L_count, L_fund_score, L_pop_score,
                 L_heat],
      rows = [[CStr securities, CFloat (Fin 5), CStr securities, CFloat (Fin 2),
               CFloat (Fin 100), CFloat (Fin 100), CFloat (Fin 100)],
              [CStr insurance, CFloat (Fin 1), CStr insurance, CFloat (Fin 1),
               CFloat (Fin 50), CFloat (Fin (2345624805922133 / 35184372088832)),
               CFloat (Fin (4339640453436539 / 70368744177664))],
              [CStr banks, CStr (ascii ''-''), CFloat NaN, CFloat (Fin 0),
               CFloat NaN, CFloat (Fin (2345624805922133 / 70368744177664)), CFloat NaN]]\<rparr>"

definition bank_etf :: etf where
  "bank_etf = \<lparr>etf_name = banks @ ascii ''ETF'', etf_code = ascii ''512800'',
               technical_status = ascii ''watch'', base_score = Fin 2, change_pct = Fin 1\<rparr>"

definition self_sample :: "pyobj \<Rightarrow> analyzer" where
  "self_sample m =
     \<lparr>data = [ascii ''industry_fund_flow'' \<mapsto> flow_sample, ascii ''rank_ljqs'' \<mapsto> ljqs_sample],
      analysis_result = [ascii ''etf_technical'' \<mapsto> Etfs [bank_etf]],
      stock_to_industry_map = m, run_mode = None, is_trading_day = None\<rparr>"

text \<open>The object as \<open>__init__\<close> leaves it, and sample surroundings of a run.\<close>

definition analyzer_init :: analyzer where
  "analyzer_init =
     \<lparr>data = Map.empty, analysis_result = Map.empty, stock_to_industry_map = ODict [],
      run_mode = None, is_trading_day = None\<rparr>"

definition world_sample ::
  "datetime \<Rightarrow> (exn + pyret) \<Rightarrow> bool \<times> (pystr \<rightharpoonup> table) \<times> pyobj \<Rightarrow> world" where
  "world_sample now cal fetched =
     \<lparr>w_clock = now, w_calendar = cal, w_to_date = to_date_sample,
      w_clean_old_cache = None, w_fetch_data = fetched,
      w_liquidity = (\<lambda>s. Inr []), w_turnover = (\<lambda>s. Inr []),
      w_margin_trading = (\<lambda>s. Inr []), w_northbound = (\<lambda>s. Inr []),
      w_intermarket = (\<lambda>s. Inr []), w_style = (\<lambda>s. Inr []),
      w_limitup = (\<lambda>s. Inr [(ascii ''limit_up_count'', JNum 3)]),
      w_sentiment = (\<lambda>s. Inl ValueError), w_market_stage = (\<lambda>s. Inr []),
      w_ai_available = False, w_prompts = (\<lambda>s. Inl ValueError),
      w_chat = env_sample (Inl (Exc True False None [])),
      w_print_report = (\<lambda>s. None),
      w_str_float = (\<lambda>f. ascii ''1''), w_to_numeric = (\<lambda>s. NaN),
      w_fmt1 = (\<lambda>f. ascii ''#''), w_fmt_value = (\<lambda>c. ascii ''#'')\<rparr>"

text \<open>
  The specification's wording of the scoring law: the range from 0 to 5 inclusive, and
  \<open>clip(base + (heat - 50) / 15, 0, 5)\<close> on numbers.
\<close>

definition within_0_5 :: "pyfloat \<Rightarrow> bool" where
  "within_0_5 v = (case v of NaN \<Rightarrow> False | Fin x \<Rightarrow> 0 \<le> x \<and> x \<le> 5)"

definition clip_law :: "real \<Rightarrow> real \<Rightarrow> real" where
  "clip_law b hv = min (max (b + (hv - 50) / 15) 0) 5"

text \<open>Clock readings in January 2024, and what \<open>fetch_data\<close> leaves behind on the sample.\<close>

definition clock_at :: "nat \<Rightarrow> nat \<Rightarrow> nat \<Rightarrow> datetime" where
  "clock_at d h m = \<lparr>year = 2024, month = 1, day = d, hour = h, minute = m\<rparr>"

definition fetched_sample :: "pyobj \<Rightarrow> bool \<times> (pystr \<rightharpoonup> table) \<times> pyobj" where
  "fetched_sample m =
     (True, [ascii ''industry_fund_flow'' \<mapsto> flow_sample, ascii ''rank_ljqs'' \<mapsto> ljqs_sample], m)"

text \<open>Sample ETFs and a sample object ready for scoring.\<close>

definition finance :: pystr where \<comment> \<open>the theme "big finance"\<close>
  "finance = [22823, 37329, 34701]"

definition securities_etf :: etf where
  "securities_etf = \<lparr>etf_name = securities @ ascii ''ETF'', etf_code = ascii ''512880'',
      technical_status = ascii ''pullback'', base_score = Fin 3, change_pct = Fin (- 1)\<rparr>"

definition unmatched_etf :: etf where
  "unmatched_etf = \<lparr>etf_name = ascii ''XYZ'', etf_code = ascii ''000000'',
      technical_status = ascii ''watch'', base_score = Fin 2, change_pct = Fin 1\<rparr>"

definition scoring_sample :: analyzer where
  "scoring_sample =
     \<lparr>data = Map.empty,
      analysis_result = [ascii ''etf_technical'' \<mapsto> Etfs [securities_etf, unmatched_etf],
                         ascii ''sector_heat_map'' \<mapsto> Frame heat_sample],
      stock_to_industry_map = ODict [], run_mode = None, is_trading_day = None\<rparr>"

section \<open>Theorems\<close>

subsection \<open>Fallback feed resolver\<close>

lemma safe_ak_call_none:
  "\<forall>n \<in> set names. answers ak args n = None \<Longrightarrow>
   safe_ak_call ak names args = (empty_df, filter (registered ak) names)"
  by (induction names) (auto simp: answers_def registered_def split: option.splits)

lemma safe_ak_call_first:
  "\<forall>n \<in> set pre. answers ak args n = None \<Longrightarrow> answers ak args c = Some df \<Longrightarrow>
   safe_ak_call ak (pre @ c # rest) args = (df, filter (registered ak) pre @ [c])"
  by (induction pre) (auto simp: answers_def registered_def split: option.splits)

text \<open>
  C3. The resolver is a total function into tables, so it raises for no input. It walks
  the candidates in order: when some candidate answers (is registered, raises nothing,
  returns a non-empty table), the result is the table of the first such candidate, and
  the operations invoked are the registered candidates before it followed by it; when no
  candidate answers, the result is the empty table and every registered candidate has
  been invoked once, in order.
\<close>

theorem safe_ak_call_spec:
  "(case find (\<lambda>n. answers ak args n \<noteq> None) names of
      Some c \<Rightarrow>
        fst (safe_ak_call ak names args) = the (answers ak args c) \<and>
        \<not> df_empty (fst (safe_ak_call ak names args)) \<and>
        snd (safe_ak_call ak names args) =
          filter (registered ak) (takeWhile (\<lambda>n. answers ak args n = None) names) @ [c]
    | None \<Rightarrow>
        safe_ak_call ak names args = (empty_df, filter (registered ak) names))"
proof (cases "find (\<lambda>n. answers ak args n \<noteq> None) names")
  case None
  then have "\<forall>n \<in> set names. answers ak args n = None"
    by (simp add: find_None_iff)
  then show ?thesis using None by (simp add: safe_ak_call_none)
next
  case (Some c)
  then obtain i where i: "i < length names" "answers ak args (names ! i) \<noteq> None"
    "c = names ! i" "\<forall>j<i. \<not> answers ak args (names ! j) \<noteq> None"
    by (auto simp: find_Some_iff)
  define pre where "pre = take i names"
  define rest where "rest = drop (Suc i) names"
  have split: "names = pre @ c # rest"
    using i by (simp add: pre_def rest_def id_take_nth_drop)
  have pre_none: "\<forall>n \<in> set pre. answers ak args n = None"
    using i by (auto simp: pre_def in_set_conv_nth)
  obtain df where df: "answers ak args c = Some df"
    using i by auto
  have tw: "takeWhile (\<lambda>n. answers ak args n = None) names = pre"
    unfolding split using pre_none df by simp
  have ne: "\<not> df_empty df"
    using df by (auto simp: answers_def split: option.splits sum.splits pyret.splits if_splits
        elim: usable.elims)
  have "safe_ak_call ak names args = (df, filter (registered ak) pre @ [c])"
    unfolding split using pre_none df by (rule safe_ak_call_first)
  then show ?thesis using Some df tw ne by simp
qed

text \<open>
  The scenario of the specification: candidate A raises, candidate B returns an empty
  table, candidate C returns a table of ten rows, and a fourth name is not registered.
\<close>

theorem safe_ak_call_spec_witness:
  "safe_ak_call
     [ascii ''A'' \<mapsto> (\<lambda>_. Inl ValueError),
      ascii ''B'' \<mapsto> (\<lambda>_. Inr (RTable empty_df)),
      ascii ''C'' \<mapsto> (\<lambda>_. Inr (RTable \<lparr>columns = [ascii ''v''],
                                          rows = replicate 10 [CFloat (Fin 1)]\<rparr>))]
     [ascii ''A'', ascii ''missing'', ascii ''B'', ascii ''C''] ()
   = (\<lparr>columns = [ascii ''v''], rows = replicate 10 [CFloat (Fin 1)]\<rparr>,
      [ascii ''A'', ascii ''B'', ascii ''C''])"
  using safe_ak_call_spec
    [where ak = "[ascii ''A'' \<mapsto> (\<lambda>_. Inl ValueError),
          ascii ''B'' \<mapsto> (\<lambda>_. Inr (RTable empty_df)),
          ascii ''C'' \<mapsto> (\<lambda>_. Inr (RTable \<lparr>columns = [ascii ''v''],
                                              rows = replicate 10 [CFloat (Fin 1)]\<rparr>))]"
       and args = "()" and names = "[ascii ''A'', ascii ''missing'', ascii ''B'', ascii ''C'']"]
  by (simp add: answers_def registered_def ascii_def df_empty_def empty_df_def prod_eq_iff)

subsection \<open>Flow normaliser\<close>

text \<open>
  C9. For every raw flow value: if it parses to a finite number \<open>x\<close> with
  \<open>|x| > 1e6\<close> the normaliser returns \<open>x / 1e8\<close>; if it parses to \<open>x\<close> with
  \<open>|x| \<le> 1e6\<close> it returns \<open>x\<close> unchanged; if it is \<open>None\<close>, \<open>nan\<close> or unparseable
  it returns \<open>nan\<close>. The normaliser is a total function into floats: it raises for no
  input.
\<close>

theorem normalize_flow_value_spec:
  "(parses_to py_float to_numeric v = Some x \<and> \<bar>x\<bar> > 1000000 \<longrightarrow>
      normalize_flow_value py_float to_numeric v = Fin (x / 100000000)) \<and>
   (parses_to py_float to_numeric v = Some x \<and> \<bar>x\<bar> \<le> 1000000 \<longrightarrow>
      normalize_flow_value py_float to_numeric v = Fin x) \<and>
   (parses_to py_float to_numeric v = None \<longrightarrow>
      normalize_flow_value py_float to_numeric v = NaN)"
proof (cases v)
  case PNone
  then show ?thesis by (simp add: normalize_flow_value_def)
next
  case (PFloat f)
  then show ?thesis by (cases f) (simp_all add: normalize_flow_value_def isna_def)
next
  case (PStr s)
  show ?thesis
  proof (cases "py_float s")
    case None
    then show ?thesis using PStr
      by (cases "to_numeric s") (simp_all add: normalize_flow_value_def isna_def)
  next
    case (Some f)
    then show ?thesis using PStr
      by (cases f) (simp_all add: normalize_flow_value_def isna_def)
  qed
qed

text \<open>
  A float reported in base units, a string within the threshold that only
  \<open>to_numeric\<close> reads, and a string nothing reads.
\<close>

theorem normalize_flow_value_spec_witness:
  "normalize_flow_value (\<lambda>s. None) (\<lambda>s. if s = ascii ''12'' then Fin 12 else NaN)
     (PFloat (Fin 250000000)) = Fin (5 / 2) \<and>
   normalize_flow_value (\<lambda>s. None) (\<lambda>s. if s = ascii ''12'' then Fin 12 else NaN)
     (PStr (ascii ''12'')) = Fin 12 \<and>
   normalize_flow_value (\<lambda>s. None) (\<lambda>s. if s = ascii ''12'' then Fin 12 else NaN)
     (PStr (ascii ''--'')) = NaN"
  using
    normalize_flow_value_spec [where py_float = "\<lambda>s. None"
      and to_numeric = "\<lambda>s. if s = ascii ''12'' then Fin 12 else NaN"
      and v = "PFloat (Fin 250000000)" and x = 250000000]
    normalize_flow_value_spec [where py_float = "\<lambda>s. None"
      and to_numeric = "\<lambda>s. if s = ascii ''12'' then Fin 12 else NaN"
      and v = "PStr (ascii ''12'')" and x = 12]
    normalize_flow_value_spec [where py_float = "\<lambda>s. None"
      and to_numeric = "\<lambda>s. if s = ascii ''12'' then Fin 12 else NaN"
      and v = "PStr (ascii ''--'')" and x = 0]
  by (simp add: ascii_def)

subsection \<open>Incremental history\<close>

lemma keep_last_set_subset: "set (keep_last key rs) \<subseteq> set rs"
  by (induction rs) auto

lemma keep_last_keys: "key ` set (keep_last key rs) = key ` set rs"
  by (induction rs) auto

lemma keep_last_append:
  "keep_last key (xs @ ys) =
     filter (\<lambda>x. key x \<notin> key ` set ys) (keep_last key xs) @ keep_last key ys"
  by (induction xs) (auto simp: image_Un)

lemma keep_last_distinct: "distinct (map key (keep_last key rs))"
  by (induction rs) (auto simp: keep_last_keys)

lemma keep_last_id: "distinct (map key rs) \<Longrightarrow> keep_last key rs = rs"
  by (induction rs) auto

lemma keep_last_idem: "keep_last key (keep_last key rs) = keep_last key rs"
  by (rule keep_last_id) (rule keep_last_distinct)

lemma filter_keep_last_self:
  "filter (\<lambda>x. key x \<notin> key ` set ys) (keep_last key ys) = []"
  using keep_last_set_subset [of key ys] by (auto simp: filter_empty_conv)

lemma keep_last_again:
  "keep_last key (keep_last key (xs @ ys) @ ys) = keep_last key (xs @ ys)"
proof -
  have "keep_last key (keep_last key (xs @ ys) @ ys) =
        filter (\<lambda>x. key x \<notin> key ` set ys) (keep_last key (xs @ ys)) @ keep_last key ys"
    by (simp add: keep_last_append [of key "keep_last key (xs @ ys)" ys] keep_last_idem)
  also have "\<dots> = filter (\<lambda>x. key x \<notin> key ` set ys) (keep_last key xs) @ keep_last key ys"
    by (simp add: keep_last_append [of key xs ys] filter_keep_last_self)
  also have "\<dots> = keep_last key (xs @ ys)"
    by (simp add: keep_last_append [of key xs ys])
  finally show ?thesis .
qed

lemma cell_at_map: "c \<in> set cs \<Longrightarrow> cell_at cs (map f cs) c = f c"
  by (simp add: cell_at_def map_of_zip_map)

lemma reindex_self: "reindex cs cs (map f cs) = map f cs"
  by (simp add: reindex_def cell_at_map)

lemma concat_df_rows_form:
  "r \<in> set (rows (concat_df a b)) \<Longrightarrow> \<exists>f. r = map f (columns (concat_df a b))"
  by (auto simp: concat_df_def Let_def reindex_def)

lemma merge_history_again:
  assumes "merge_history c base delta = Inr m"
  shows "merge_history c m delta = Inr m"
proof -
  define cs where "cs = columns base @ filter (\<lambda>x. x \<notin> set (columns base)) (columns delta)"
  define A where "A = map (reindex (columns base) cs) (rows base)"
  define B where "B = map (reindex (columns delta) cs) (rows delta)"
  define key where "key = (\<lambda>row. cell_at cs row c)"
  have cat: "concat_df base delta = \<lparr>columns = cs, rows = A @ B\<rparr>"
    by (simp add: concat_df_def cs_def A_def B_def Let_def)
  from assms have c: "c \<in> set cs" and m: "m = \<lparr>columns = cs, rows = keep_last key (A @ B)\<rparr>"
    by (auto simp: merge_history_def drop_duplicates_last_def cat key_def split: if_splits)
  have sub: "filter (\<lambda>x. x \<notin> set cs) (columns delta) = []"
    by (auto simp: cs_def filter_empty_conv)
  have form: "\<exists>f. r = map f cs" if "r \<in> set (keep_last key (A @ B))" for r
  proof -
    from that keep_last_set_subset [of key "A @ B"] have "r \<in> set (rows (concat_df base delta))"
      by (auto simp: cat)
    from concat_df_rows_form [OF this] show ?thesis by (simp add: cat)
  qed
  have same: "map (reindex cs cs) (keep_last key (A @ B)) = keep_last key (A @ B)"
  proof (rule map_idI)
    fix r assume "r \<in> set (keep_last key (A @ B))"
    then obtain f where "r = map f cs" using form by blast
    then show "reindex cs cs r = r" by (simp add: reindex_self)
  qed
  have cat2: "concat_df \<lparr>columns = cs, rows = keep_last key (A @ B)\<rparr> delta =
      \<lparr>columns = cs, rows = keep_last key (A @ B) @ B\<rparr>"
    using same by (simp add: concat_df_def Let_def sub flip: B_def)
  have "keep_last (\<lambda>row. cell_at cs row c) (keep_last key (A @ B) @ B) = keep_last key (A @ B)"
    unfolding key_def by (rule keep_last_again)
  then show ?thesis
    unfolding m merge_history_def drop_duplicates_last_def cat2 using c by simp
qed

text \<open>
  C4. The merge of the incremental history (concatenation of base and delta, then
  de-duplication on the date column keeping the last occurrence of each date) is
  idempotent: whenever the date column exists in the base or in the delta, the merge
  yields a table, and merging the same delta into that table again yields the same
  table. (When neither table has the date column the de-duplication raises
  \<open>KeyError\<close>, which the caller catches.)
\<close>

theorem merge_history_idempotent:
  assumes "date_col_name \<in> set (columns df_base) \<or> date_col_name \<in> set (columns df_new)"
  shows "\<exists>m. merge_history date_col_name df_base df_new = Inr m \<and>
             merge_history date_col_name m df_new = Inr m"
proof -
  from assms have "date_col_name \<in> set (columns (concat_df df_base df_new))"
    by (auto simp: concat_df_def Let_def)
  then obtain m where m: "merge_history date_col_name df_base df_new = Inr m"
    by (simp add: merge_history_def drop_duplicates_last_def)
  with merge_history_again [OF m] show ?thesis by blast
qed

text \<open>
  A base of two days and a delta that restates the second day and adds a third: the
  restated day takes the delta's value, and a second merge changes nothing.
\<close>

theorem merge_history_idempotent_witness:
  "merge_history [26085, 26399]
     (hist [(''2024-01-02'', 1), (''2024-01-03'', 2)])
     (hist [(''2024-01-03'', 9), (''2024-01-04'', 3)])
   = Inr (hist [(''2024-01-02'', 1), (''2024-01-03'', 9), (''2024-01-04'', 3)]) \<and>
   merge_history [26085, 26399]
     (hist [(''2024-01-02'', 1), (''2024-01-03'', 9), (''2024-01-04'', 3)])
     (hist [(''2024-01-03'', 9), (''2024-01-04'', 3)])
   = Inr (hist [(''2024-01-02'', 1), (''2024-01-03'', 9), (''2024-01-04'', 3)])"
  using merge_history_idempotent
    [of "[26085, 26399]" "hist [(''2024-01-02'', 1), (''2024-01-03'', 2)]"
        "hist [(''2024-01-03'', 9), (''2024-01-04'', 3)]"]
  by (simp add: merge_history_def drop_duplicates_last_def concat_df_def reindex_def
      cell_at_def hist_def ascii_def)

text \<open>
  C5. When a base table is stored and the delta fetch raises or returns an empty table,
  \<open>get_incremental_daily_data\<close> returns the stored base table as it is, and neither
  the stored files nor the in-process cache change.
\<close>

theorem incremental_failure_keeps_base:
  assumes "files st (base_path base_filename) = Some (OFrame df_base)"
    and "get_column df_base date_col_name = Inr dates"
    and "next_start dates = Inr start_date"
    and "fetch_failed (data_func start_date)"
  shows "\<exists>st'. get_incremental_daily_data next_start st now base_filename data_func date_col_name
            = Inr (OFrame df_base, st') \<and> files st' = files st \<and> memo st' = memo st"
  using assms
  by (auto simp: get_incremental_daily_data_def Let_def fetch_failed_def
      split: sum.splits pyobj.splits)

theorem incremental_failure_keeps_base_witness:
  "get_incremental_daily_data (\<lambda>ds. Inr (ascii ''20240103''))
     \<lparr>memo = Map.empty,
      files = [base_path (ascii ''sh_index'') \<mapsto> OFrame (hist [(''2024-01-02'', 1)])],
      cache_dir = True, producer_calls = 0\<rparr>
     clock_sample (ascii ''sh_index'') (\<lambda>start. Inl OSError) [26085, 26399]
   = Inr (OFrame (hist [(''2024-01-02'', 1)]),
       \<lparr>memo = Map.empty,
        files = [base_path (ascii ''sh_index'') \<mapsto> OFrame (hist [(''2024-01-02'', 1)])],
        cache_dir = True, producer_calls = 1\<rparr>)"
  using incremental_failure_keeps_base
    [where st = "\<lparr>memo = Map.empty,
        files = [base_path (ascii ''sh_index'') \<mapsto> OFrame (hist [(''2024-01-02'', 1)])],
        cache_dir = True, producer_calls = 0\<rparr>"
      and base_filename = "ascii ''sh_index''" and df_base = "hist [(''2024-01-02'', 1)]"
      and date_col_name = "[26085, 26399]"
      and dates = "[CStr (ascii ''2024-01-02'')]"
      and next_start = "\<lambda>ds. Inr (ascii ''20240103'')" and start_date = "ascii ''20240103''"
      and data_func = "\<lambda>start. Inl OSError"
      and now = clock_sample]
  by (simp add: get_incremental_daily_data_def Let_def fetch_failed_def hist_def get_column_def
      cell_at_def strftime_Ymd_def pad2_def pad4_def digit_def ascii_def clock_sample_def)

subsection \<open>Bucketed cache\<close>

text \<open>
  C2, as the code has it. When the producer raises during a miss (the key is neither in
  the in-process cache nor on file), \<open>cache_data\<close> returns the empty table without
  raising, and nothing is cached: the in-process cache and the files are left as they
  were. The next call for the same bucket is therefore a miss again and invokes the
  producer a second time; if the producer now succeeds, its data is stored under the key.
\<close>

theorem cache_data_failure_not_cached:
  assumes "memo st (cache_path now filename args frequency kwargs) = None"
    and "files st (cache_path now filename args frequency kwargs) = None"
  shows "cache_data st now filename (Inl e) args frequency kwargs =
           (OFrame empty_df, st\<lparr>cache_dir := True, producer_calls := Suc (producer_calls st)\<rparr>) \<and>
         cache_data (snd (cache_data st now filename (Inl e) args frequency kwargs))
            now filename (Inr fresh) args frequency kwargs =
           (fresh,
            st\<lparr>cache_dir := True, producer_calls := Suc (Suc (producer_calls st)),
               files := (files st)(cache_path now filename args frequency kwargs \<mapsto> fresh),
               memo := (memo st)(cache_path now filename args frequency kwargs \<mapsto> fresh)\<rparr>)"
  using assms by (simp add: cache_data_def Let_def)

theorem cache_data_failure_not_cached_witness:
  "cache_data \<lparr>memo = Map.empty, files = Map.empty, cache_dir = False, producer_calls = 0\<rparr>
     clock_sample (ascii ''zt_pool'') (Inl OSError) [] (ascii ''hourly'') []
   = (OFrame empty_df,
      \<lparr>memo = Map.empty, files = Map.empty, cache_dir = True, producer_calls = 1\<rparr>)"
  using cache_data_failure_not_cached
    [where st = "\<lparr>memo = Map.empty, files = Map.empty, cache_dir = False, producer_calls = 0\<rparr>"
      and now = clock_sample and filename = "ascii ''zt_pool''" and args = "[]"
      and frequency = "ascii ''hourly''" and kwargs = "[]" and e = OSError
      and fresh = "OFrame empty_df"]
  by simp

text \<open>
  The claim as the specification states it fails: after a failed producer call in the
  hour bucket 2024-01-05 10h, the key \<open>../cache/zt_pool__2024010510.pkl\<close> is neither
  memoised nor on file, and a second call in the same bucket invokes the producer again
  (two invocations in all) and returns what it now delivers.
\<close>

theorem cache_data_failure_cached_counterexample:
  "cache_path clock_sample (ascii ''zt_pool'') [] (ascii ''hourly'') []
     = ascii ''../cache/zt_pool__2024010510.pkl'' \<and>
   (let st0 = \<lparr>memo = Map.empty, files = Map.empty, cache_dir = False, producer_calls = 0\<rparr>;
        first = cache_data st0 clock_sample (ascii ''zt_pool'') (Inl OSError) []
                  (ascii ''hourly'') [];
        second = cache_data (snd first) clock_sample (ascii ''zt_pool'')
                  (Inr (OFrame (hist [(''2024-01-05'', 1)]))) [] (ascii ''hourly'') []
    in fst first = OFrame empty_df \<and>
       memo (snd first) (ascii ''../cache/zt_pool__2024010510.pkl'') = None \<and>
       files (snd first) (ascii ''../cache/zt_pool__2024010510.pkl'') = None \<and>
       producer_calls (snd second) = 2 \<and>
       fst second = OFrame (hist [(''2024-01-05'', 1)]))"
  by (simp add: cache_data_def cache_path_def os_path_join_def strftime_YmdH_def
      strftime_Ymd_def pad2_def pad4_def digit_def ascii_def clock_sample_def Let_def)

subsection \<open>Narrative call\<close>

lemma lower_set_x:
  "set (lower v) = {120} \<longleftrightarrow> v \<noteq> [] \<and> set v \<subseteq> {120, 88}"
proof -
  let ?f = "\<lambda>c::nat. if 65 \<le> c \<and> c \<le> 90 then c + 32 else c"
  have f: "?f c = 120 \<longleftrightarrow> c = 120 \<or> c = 88" for c by auto
  have "set (lower v) = ?f ` set v" by (simp add: lower_def)
  moreover have "?f ` S = {120} \<longleftrightarrow> S \<noteq> {} \<and> S \<subseteq> {120, 88}" for S :: "nat set"
  proof
    assume h: "?f ` S = {120}"
    then have "S \<noteq> {}" by auto
    moreover have "c \<in> {120, 88}" if "c \<in> S" for c
    proof -
      from that h have "?f c = 120" by blast
      then show ?thesis using f by simp
    qed
    ultimately show "S \<noteq> {} \<and> S \<subseteq> {120, 88}" by blast
  next
    assume h: "S \<noteq> {} \<and> S \<subseteq> {120, 88}"
    then have "\<forall>c \<in> S. ?f c = 120" using f by blast
    with h show "?f ` S = {120}" by (auto simp: image_def)
  qed
  ultimately show ?thesis by simp
qed

lemma is_placeholder_iff:
  "is_placeholder (Some s) \<longleftrightarrow> s = [] \<or> (strip s \<noteq> [] \<and> set (strip s) \<subseteq> {120, 88})"
proof (cases "s = []")
  case True
  then show ?thesis by (simp add: is_placeholder_def)
next
  case False
  have "set (strip s) = {120} \<Longrightarrow> strip s \<noteq> [] \<and> set (strip s) \<subseteq> {120, 88}"
    by auto
  then show ?thesis using False
    by (auto simp: is_placeholder_def Let_def lower_set_x)
qed

lemma py_or_default: "d \<noteq> [] \<Longrightarrow> \<exists>k. py_or a (Some d) = Some k \<and> k \<noteq> []"
  by (auto simp: py_or_def split: option.splits)

lemma handle_exc_failed: "\<exists>s. handle_exc f e = JStr (call_failed @ s)"
  by (auto simp: handle_exc_def split: option.splits)

lemma after_post_failures:
  "after_post env (Inl e) = handle_exc (fmt env) e"
  "400 \<le> status_code resp \<and> status_code resp < 600 \<Longrightarrow>
     \<exists>s. after_post env (Inr resp) = JStr (call_failed @ s)"
  "\<not> (400 \<le> status_code resp \<and> status_code resp < 600) \<Longrightarrow> json_result resp = Inl e \<Longrightarrow>
     after_post env (Inr resp) = handle_exc (fmt env) e"
  "\<not> (400 \<le> status_code resp \<and> status_code resp < 600) \<Longrightarrow> json_result resp = Inr d \<Longrightarrow>
     reply_content (describe env) d = Inl e \<Longrightarrow>
     after_post env (Inr resp) = handle_exc (fmt env) e"
  "\<not> (400 \<le> status_code resp \<and> status_code resp < 600) \<Longrightarrow> json_result resp = Inr d \<Longrightarrow>
     reply_content (describe env) d = Inr c \<Longrightarrow> after_post env (Inr resp) = c"
proof -
  show "after_post env (Inl e) = handle_exc (fmt env) e"
    by (simp add: after_post_def)
  show "\<exists>s. after_post env (Inr resp) = JStr (call_failed @ s)"
    if "400 \<le> status_code resp \<and> status_code resp < 600"
    using that handle_exc_failed [of "fmt env" "Exc True False (Some resp) (status_text env resp)"]
    by (simp add: after_post_def)
  show "after_post env (Inr resp) = handle_exc (fmt env) e"
    if "\<not> (400 \<le> status_code resp \<and> status_code resp < 600)" "json_result resp = Inl e"
    using that by (auto simp: after_post_def)
  show "after_post env (Inr resp) = handle_exc (fmt env) e"
    if "\<not> (400 \<le> status_code resp \<and> status_code resp < 600)" "json_result resp = Inr d"
      "reply_content (describe env) d = Inl e"
    using that by (auto simp: after_post_def)
  show "after_post env (Inr resp) = c"
    if "\<not> (400 \<le> status_code resp \<and> status_code resp < 600)" "json_result resp = Inr d"
      "reply_content (describe env) d = Inr c"
    using that by (auto simp: after_post_def)
qed

text \<open>
  C10, as the code has it by design. The resolved key and model name are never empty
  (the hardcoded defaults end both fallback chains). \<open>chat_volces\<close> returns the "not
  configured" sentinel at its configuration check exactly when the resolved key or the
  resolved model name, stripped of surrounding whitespace, is non-empty and holds only
  the letters x and X. Otherwise it sends one request: to the stripped endpoint (the
  variable \<open>VOLCES_ENDPOINT\<close> when set), with the resolved key as bearer token, and
  with the bot identifier in the payload when the endpoint is a bots endpoint and
  \<open>VOLCES_BOT_ID\<close> is set, the resolved model name otherwise. A transport failure, a
  status from 400 to 599, a body that is not JSON and a reply without
  \<open>choices[0].message.content\<close> each yield a string that begins with \<open>call_failed\<close>;
  a reply whose content is a string yields that string. Nothing is stated about a reply
  whose content is not a string.
\<close>

theorem chat_volces_outcomes:
  assumes "default_key env \<noteq> []"
  shows "\<exists>k m. resolved_key (getenv env) (default_key env) api_key = Some k \<and> k \<noteq> [] \<and>
           resolved_model (getenv env) model = Some m \<and> m \<noteq> [] \<and>
           (let result = chat_volces env system user timeout api_key model endpoint;
                failed = (\<exists>s. result = JStr (call_failed @ s));
                url = strip (str_of (py_or (getenv env (ascii ''VOLCES_ENDPOINT'')) (Some endpoint)));
                bot = strip (str_of (py_or (getenv env (ascii ''VOLCES_BOT_ID'')) (Some [])));
                payload =
                  JObj [if py_in (ascii ''/bots/'') url \<and> bot \<noteq> []
                        then (ascii ''bot_id'', JStr bot) else (ascii ''model'', JStr m),
                        (ascii ''stream'', JBool False),
                        (ascii ''messages'', messages system user)];
                headers = [(ascii ''Authorization'', ascii ''Bearer '' @ k),
                           (ascii ''Content-Type'', ascii ''application/json'')]
            in if only_x k \<or> only_x m then result = JStr msg_not_configured
               else
                 (case post env url payload headers timeout of
                    Inl e \<Rightarrow> failed
                  | Inr resp \<Rightarrow>
                      if 400 \<le> status_code resp \<and> status_code resp < 600 then failed
                      else
                        (case json_result resp of
                           Inl e \<Rightarrow> failed
                         | Inr body \<Rightarrow>
                             (case reply_content (describe env) body of
                                Inl e \<Rightarrow> failed
                              | Inr content \<Rightarrow>
                                  (case content of
                                     JStr s \<Rightarrow> result = JStr s
                                   | _ \<Rightarrow> True)))))"
proof -
  obtain k where k: "resolved_key (getenv env) (default_key env) api_key = Some k" "k \<noteq> []"
    unfolding resolved_key_def using py_or_default [OF assms] by blast
  have "MODEL \<noteq> []" by (simp add: MODEL_def ascii_def)
  then obtain m where m: "resolved_model (getenv env) model = Some m" "m \<noteq> []"
    unfolding resolved_model_def using py_or_default by blast
  have pk: "is_placeholder (Some k) = only_x k" and pm: "is_placeholder (Some m) = only_x m"
    using k m by (simp_all add: is_placeholder_iff only_x_def)
  define result where "result = chat_volces env system user timeout api_key model endpoint"
  define url where
    "url = strip (str_of (py_or (getenv env (ascii ''VOLCES_ENDPOINT'')) (Some endpoint)))"
  define bot where "bot = strip (str_of (py_or (getenv env (ascii ''VOLCES_BOT_ID'')) (Some [])))"
  define payload where "payload =
     JObj [if py_in (ascii ''/bots/'') url \<and> bot \<noteq> []
           then (ascii ''bot_id'', JStr bot) else (ascii ''model'', JStr m),
           (ascii ''stream'', JBool False), (ascii ''messages'', messages system user)]"
  define headers where "headers = [(ascii ''Authorization'', ascii ''Bearer '' @ k),
                           (ascii ''Content-Type'', ascii ''application/json'')]"
  define outcome where "outcome = post env url payload headers timeout"
  let ?failed = "\<exists>s. result = JStr (call_failed @ s)"
  have body: "if only_x k \<or> only_x m then result = JStr msg_not_configured
       else
         (case outcome of
            Inl e \<Rightarrow> ?failed
          | Inr resp \<Rightarrow>
              if 400 \<le> status_code resp \<and> status_code resp < 600 then ?failed
              else
                (case json_result resp of
                   Inl e \<Rightarrow> ?failed
                 | Inr body \<Rightarrow>
                     (case reply_content (describe env) body of
                        Inl e \<Rightarrow> ?failed
                      | Inr content \<Rightarrow>
                          (case content of JStr s \<Rightarrow> result = JStr s | _ \<Rightarrow> True))))"
  proof (cases "only_x k \<or> only_x m")
    case True
    then have "result = JStr msg_not_configured"
      using k m pk pm by (auto simp: result_def chat_volces_def Let_def)
    then show ?thesis using True by simp
  next
    case False
    have run: "result = after_post env outcome"
      using False k m pk pm
      by (auto simp: result_def chat_volces_def Let_def outcome_def url_def bot_def payload_def
          headers_def str_of_def)
    show ?thesis
    proof (cases outcome)
      case (Inl e)
      then show ?thesis
        using False run after_post_failures(1) [of env e] handle_exc_failed [of "fmt env" e]
        by simp
    next
      case (Inr resp)
      show ?thesis
      proof (cases "400 \<le> status_code resp \<and> status_code resp < 600")
        case True
        then show ?thesis using False run Inr after_post_failures(2) [of resp env] by simp
      next
        case ok: False
        show ?thesis
        proof (cases "json_result resp")
          case (Inl e)
          then show ?thesis
            using False run Inr ok after_post_failures(3) [of resp e env]
              handle_exc_failed [of "fmt env" e] by simp
        next
          case d: (Inr d)
          show ?thesis
          proof (cases "reply_content (describe env) d")
            case (Inl e)
            then show ?thesis
              using False run Inr ok d after_post_failures(4) [of resp d env e]
                handle_exc_failed [of "fmt env" e] by simp
          next
            case c: (Inr c)
            then show ?thesis
              using False run Inr ok d after_post_failures(5) [of resp d env c]
              by (auto split: json.splits)
          qed
        qed
      qed
    qed
  qed
  show ?thesis
    using k m body
    unfolding Let_def result_def outcome_def headers_def payload_def bot_def url_def
    by blast
qed

lemmas chat_eval = chat_volces_def resolved_key_def resolved_model_def py_or_def str_of_def
      is_placeholder_def strip_def is_space_def lower_def MODEL_def env_sample_def
      reply_sample_def after_post_def reply_content_def handle_exc_def lookup_exc_def
      detail_of_def format_detail_def messages_def env_strict_def request_sample_def
      headers_sample_def

text \<open>
  Runs against surroundings that answer only the request described above (default
  model, key \<open>sk-1\<close>): a reply with a string content; the same reply asked for with
  another key, which the surroundings refuse; a refused login, a server error, a body
  that is not JSON and a reply without choices; and a key of x only.
\<close>

theorem chat_volces_outcomes_witness:
  "chat_volces
     (env_strict (ascii ''https://host/api/v3/chat/completions'') request_sample headers_sample
        (reply_sample (JStr (ascii ''ok''))))
     (ascii ''sys'') (ascii ''usr'') 30 (Some (ascii ''sk-1'')) None
     (ascii '' https://host/api/v3/chat/completions '')
     = JStr (ascii ''ok'') \<and>
   chat_volces
     (env_strict (ascii ''https://host/api/v3/chat/completions'') request_sample headers_sample
        (reply_sample (JStr (ascii ''ok''))))
     (ascii ''sys'') (ascii ''usr'') 30 (Some (ascii ''sk-2'')) None
     (ascii ''https://host/api/v3/chat/completions'')
     = JStr (call_failed @ msg_request @ ascii ''refused'') \<and>
   chat_volces (env_sample (Inr (Response 401 (Inl (Exc False True None [])) None)))
     (ascii ''sys'') (ascii ''usr'') 30 None None (ascii ''https://host/api/v3/chat/completions'')
     = JStr (call_failed @ msg_401_tail) \<and>
   chat_volces (env_sample (Inr (Response 500 (Inl (Exc False True None [])) (Some (ascii '' down '')))))
     (ascii ''sys'') (ascii ''usr'') 30 None None (ascii ''https://host/api/v3/chat/completions'')
     = JStr (call_failed @ msg_request @ ascii ''status'' @ msg_detail @ ascii ''down'') \<and>
   chat_volces (env_sample (Inr (Response 200 (Inl (Exc False True None (ascii ''no json''))) None)))
     (ascii ''sys'') (ascii ''usr'') 30 None None (ascii ''https://host/api/v3/chat/completions'')
     = JStr (call_failed @ msg_parse @ ascii ''no json'') \<and>
   chat_volces (env_sample (Inr (Response 200 (Inr (JObj [(ascii ''choices'', JArr [])])) None)))
     (ascii ''sys'') (ascii ''usr'') 30 None None (ascii ''https://host/api/v3/chat/completions'')
     = JStr (call_failed @ msg_unknown @ ascii ''lookup'') \<and>
   chat_volces (env_sample (reply_sample (JStr (ascii ''ok'')))) (ascii ''sys'') (ascii ''usr'')
     30 (Some (ascii ''xxxx'')) None (ascii ''https://host/api/v3/chat/completions'')
     = JStr msg_not_configured"
  using chat_volces_outcomes
    [where env = "env_strict (ascii ''https://host/api/v3/chat/completions'') request_sample
                    headers_sample (reply_sample (JStr (ascii ''ok'')))"
       and api_key = "Some (ascii ''sk-1'')"
       and model = None and system = "ascii ''sys''" and user = "ascii ''usr''" and timeout = 30
       and endpoint = "ascii '' https://host/api/v3/chat/completions ''"]
  by (simp add: chat_eval ascii_def Let_def)

text \<open>
  The claim as the specification states it fails: the key XX is neither empty nor made
  of the character x only, yet the sentinel is returned.
\<close>

theorem chat_volces_sentinel_counterexample:
  "chat_volces (env_sample (reply_sample (JStr (ascii ''ok'')))) (ascii ''sys'') (ascii ''usr'')
     30 (Some (ascii ''XX'')) None (ascii ''https://host/api/v3/chat/completions'')
     = JStr msg_not_configured \<and>
   resolved_key (getenv (env_sample (reply_sample (JStr (ascii ''ok'')))))
     (default_key (env_sample (reply_sample (JStr (ascii ''ok''))))) (Some (ascii ''XX''))
     = Some (ascii ''XX'') \<and>
   ascii ''XX'' \<noteq> [] \<and> set (ascii ''XX'') \<noteq> {120}"
  by (simp add: chat_eval ascii_def Let_def)

subsection \<open>Sector heat\<close>












lemma length_cells_of [simp]: "length (cells_of df c) = length (rows df)"
  by (simp add: cells_of_def)

lemma length_rank_pct [simp]: "length (rank_pct vs) = length vs"
  by (simp add: rank_pct_def)


lemma filter_len_insert_desc:
  "length (filter P (insert_desc key r xs)) = length (filter P (r # xs))"
  by (induction xs) auto

lemma filter_len_sort_desc: "length (filter P (sort_desc key rs)) = length (filter P rs)"
  by (induction rs) (simp_all add: sort_desc_def filter_len_insert_desc)

lemma set_insert_desc: "set (insert_desc key r xs) = insert r (set xs)"
  by (induction xs) auto

lemma set_sort_desc: "set (sort_desc key rs) = set rs"
  by (induction rs) (simp_all add: sort_desc_def set_insert_desc)





subsection \<open>Run mode\<close>

lemma isolated_frame [simp]:
  "run_mode (isolated k b s) = run_mode s" "is_trading_day (isolated k b s) = is_trading_day s"
  "data (isolated k b s) = data s" "stock_to_industry_map (isolated k b s) = stock_to_industry_map s"
  by (simp_all add: isolated_def put_result_def split: sum.splits)

lemma put_result_frame [simp]:
  "run_mode (put_result k r s) = run_mode s" "is_trading_day (put_result k r s) = is_trading_day s"
  "data (put_result k r s) = data s"
  "stock_to_industry_map (put_result k r s) = stock_to_industry_map s"
  by (simp_all add: put_result_def)

lemma sector_strength_frame:
  "run_mode (snd (analyze_sector_strength sf tn s)) = run_mode s \<and>
   is_trading_day (snd (analyze_sector_strength sf tn s)) = is_trading_day s"
  by (simp add: analyze_sector_strength_def store_heat_map_def Let_def
      split: option.splits pyobj.splits sum.splits)

lemma scoring_frame:
  "run_mode (snd (comprehensive_scoring f1 fv s)) = run_mode s \<and>
   is_trading_day (snd (comprehensive_scoring f1 fv s)) = is_trading_day s"
  by (simp add: comprehensive_scoring_def split: option.splits result.splits sum.splits)

lemma conclusion_frame:
  "run_mode (analyze_conclusion w s) = run_mode s \<and>
   is_trading_day (analyze_conclusion w s) = is_trading_day s"
  by (simp add: analyze_conclusion_def split: sum.splits prod.splits)

lemma pipeline_frame:
  "run_mode (snd (pipeline w s)) = run_mode s \<and>
   is_trading_day (snd (pipeline w s)) = is_trading_day s"
proof -
  define s8 where "s8 = analyze_market_sentiment w (analyze_limitup_structure w
      (analyze_market_style w (analyze_intermarket_relationship w
      (analyze_northbound_fund_flow w (analyze_margin_trading w
      (analyze_market_turnover w (analyze_market_liquidity w s)))))))"
  have s8: "run_mode s8 = run_mode s \<and> is_trading_day s8 = is_trading_day s"
    by (simp add: s8_def analyze_market_sentiment_def analyze_limitup_structure_def
        analyze_market_style_def analyze_intermarket_relationship_def
        analyze_northbound_fund_flow_def analyze_margin_trading_def
        analyze_market_turnover_def analyze_market_liquidity_def)
  obtain e9 s9 where r9: "analyze_sector_strength (w_str_float w) (w_to_numeric w) s8 = (e9, s9)"
    by (cases "analyze_sector_strength (w_str_float w) (w_to_numeric w) s8")
  have s9: "run_mode s9 = run_mode s \<and> is_trading_day s9 = is_trading_day s"
    using sector_strength_frame [of "w_str_float w" "w_to_numeric w" s8] r9 s8 by simp
  define s10 where "s10 = analyze_market_stage w s9"
  have s10: "run_mode s10 = run_mode s \<and> is_trading_day s10 = is_trading_day s"
    using s9 by (simp add: s10_def analyze_market_stage_def)
  obtain e11 s11 where r11: "comprehensive_scoring (w_fmt1 w) (w_fmt_value w) s10 = (e11, s11)"
    by (cases "comprehensive_scoring (w_fmt1 w) (w_fmt_value w) s10")
  have s11: "run_mode s11 = run_mode s \<and> is_trading_day s11 = is_trading_day s"
    using scoring_frame [of "w_fmt1 w" "w_fmt_value w" s10] r11 s10 by simp
  have s12: "run_mode (analyze_conclusion w s11) = run_mode s \<and>
             is_trading_day (analyze_conclusion w s11) = is_trading_day s"
    using conclusion_frame [of w s11] s11 by simp
  show ?thesis
    using r9 r11 s9 s11 s12
    by (cases e9; cases e11) (simp_all add: pipeline_def Let_def flip: s8_def s10_def)
qed

lemma pick_col_find: "pick_col df cs = find (\<lambda>label. label \<in> set (columns df)) cs"
  by (induction cs) simp_all

lemma find_found: "find P xs = Some x \<Longrightarrow> P x \<and> x \<in> set xs"
  by (induction xs) (auto split: if_splits)

lemma map_filter_map: "List.map_filter g (map f xs) = List.map_filter (\<lambda>x. g (f x)) xs"
  by (simp add: List.map_filter_def filter_map o_def)

lemma is_trade_day_calendar:
  "is_trade_day calendar to_date d =
     map_option (\<lambda>days. d \<in> days) (calendar_days calendar to_date)"
proof (cases calendar)
  case (Inl e)
  then show ?thesis by (simp add: is_trade_day_def calendar_days_def)
next
  case (Inr ret)
  show ?thesis
  proof (cases ret)
    case (RTable df)
    let ?labels = "[ascii ''trade_date'', [26085, 26399], ascii ''date'']"
    show ?thesis
    proof (cases "find (\<lambda>label. label \<in> set (columns df)) ?labels")
      case None
      then show ?thesis
        using Inr RTable by (simp add: is_trade_day_def calendar_days_def pick_col_find)
    next
      case (Some label)
      then have mem: "label \<in> set (columns df)" and lab: "label \<in> set ?labels"
        using find_found [of "\<lambda>label. label \<in> set (columns df)" ?labels label] by blast+
      from lab have ne: "label \<noteq> []" by (auto simp: ascii_def)
      from mem have cols: "columns df \<noteq> []" by auto
      show ?thesis
        using Inr RTable Some ne cols mem
        by (simp add: is_trade_day_def calendar_days_def pick_col_find df_empty_def
            get_column_def map_filter_map)
    qed
  qed (simp_all add: Inr is_trade_day_def calendar_days_def)
qed

text \<open>
  C6. For every run: when the fetched calendar is available, the day counts as a
  trading day exactly when the calendar lists today; when the calendar is unavailable,
  exactly when today is a weekday (Monday to Friday). On a day that is not a trading day
  the mode is \<open>POST_MARKET\<close>; otherwise it is \<open>LIVE_MORNING\<close> for the hours 9 to 11,
  \<open>MIDDAY_SUMMARY\<close> for hour 12, \<open>LIVE_AFTERNOON\<close> for the hours 13 and 14, and
  \<open>POST_MARKET\<close> for any other hour. The analyzer object at the end of the run, however
  far the run got and whatever the analyzers did, still carries the mode computed at the
  start.
\<close>

theorem run_mode_classification:
  "(let now = w_clock w;
        trading = (case calendar_days (w_calendar w) (w_to_date w) of
                     Some days \<Rightarrow> date_of now \<in> days
                   | None \<Rightarrow> weekday now < 5);
        final = snd (run_analysis w self)
    in is_trading_day final = Some trading \<and>
       run_mode final =
         Some (if \<not> trading then POST_MARKET
               else if 9 \<le> hour now \<and> hour now < 12 then LIVE_MORNING
               else if 12 \<le> hour now \<and> hour now < 13 then MIDDAY_SUMMARY
               else if 13 \<le> hour now \<and> hour now < 15 then LIVE_AFTERNOON
               else POST_MARKET))"
proof -
  define trading where "trading = trading_day_of
      (is_trade_day (w_calendar w) (w_to_date w) (date_of (w_clock w))) (w_clock w)"
  define self1 where "self1 = self\<lparr>is_trading_day := Some trading,
                       run_mode := Some (mode_of trading (w_clock w))\<rparr>"
  obtain fetched d m where f: "w_fetch_data w = (fetched, d, m)"
    by (cases "w_fetch_data w")
  define self2 where "self2 = self1\<lparr>data := data self1 ++ d, stock_to_industry_map := m\<rparr>"
  have fin: "run_mode (snd (run_analysis w self)) = Some (mode_of trading (w_clock w)) \<and>
             is_trading_day (snd (run_analysis w self)) = Some trading"
  proof (cases "w_clean_old_cache w")
    case (Some e)
    then show ?thesis by (simp add: run_analysis_def Let_def flip: trading_def)
  next
    case None
    have run: "run_analysis w self = (if fetched then pipeline w self2 else (None, self2))"
      using None f by (simp add: run_analysis_def Let_def self2_def self1_def flip: trading_def)
    show ?thesis using pipeline_frame [of w self2]
      by (simp add: run self2_def self1_def)
  qed
  have tr: "trading = (case calendar_days (w_calendar w) (w_to_date w) of
                     Some days \<Rightarrow> date_of (w_clock w) \<in> days
                   | None \<Rightarrow> weekday (w_clock w) < 5)"
    by (simp add: trading_def trading_day_of_def is_trade_day_calendar split: option.splits)
  show ?thesis
    using fin unfolding Let_def by (simp add: mode_of_def flip: tr)
qed

subsection \<open>Evaluation of the sample\<close>

lemma label_neq:
  "L_name \<noteq> L_sector_name" "L_name \<noteq> L_change"
  "L_name \<noteq> L_sector_change" "L_name \<noteq> L_inflow_today"
  "L_name \<noteq> L_inflow" "L_name \<noteq> L_stock_code" "L_name \<noteq> L_code"
  "L_name \<noteq> L_industry" "L_name \<noteq> L_count" "L_name \<noteq> L_fund_score"
  "L_name \<noteq> L_pop_score" "L_name \<noteq> L_heat" "L_sector_name \<noteq> L_name"
  "L_sector_name \<noteq> L_change" "L_sector_name \<noteq> L_sector_change"
  "L_sector_name \<noteq> L_inflow_today" "L_sector_name \<noteq> L_inflow"
  "L_sector_name \<noteq> L_stock_code" "L_sector_name \<noteq> L_code"
  "L_sector_name \<noteq> L_industry" "L_sector_name \<noteq> L_count"
  "L_sector_name \<noteq> L_fund_score" "L_sector_name \<noteq> L_pop_score"
  "L_sector_name \<noteq> L_heat" "L_change \<noteq> L_name"
  "L_change \<noteq> L_sector_name" "L_change \<noteq> L_sector_change"
  "L_change \<noteq> L_inflow_today" "L_change \<noteq> L_inflow"
  "L_change \<noteq> L_stock_code" "L_change \<noteq> L_code"
  "L_change \<noteq> L_industry" "L_change \<noteq> L_count"
  "L_change \<noteq> L_fund_score" "L_change \<noteq> L_pop_score"
  "L_change \<noteq> L_heat" "L_sector_change \<noteq> L_name"
  "L_sector_change \<noteq> L_sector_name" "L_sector_change \<noteq> L_change"
  "L_sector_change \<noteq> L_inflow_today" "L_sector_change \<noteq> L_inflow"
  "L_sector_change \<noteq> L_stock_code" "L_sector_change \<noteq> L_code"
  "L_sector_change \<noteq> L_industry" "L_sector_change \<noteq> L_count"
  "L_sector_change \<noteq> L_fund_score" "L_sector_change \<noteq> L_pop_score"
  "L_sector_change \<noteq> L_heat" "L_inflow_today \<noteq> L_name"
  "L_inflow_today \<noteq> L_sector_name" "L_inflow_today \<noteq> L_change"
  "L_inflow_today \<noteq> L_sector_change" "L_inflow_today \<noteq> L_inflow"
  "L_inflow_today \<noteq> L_stock_code" "L_inflow_today \<noteq> L_code"
  "L_inflow_today \<noteq> L_industry" "L_inflow_today \<noteq> L_count"
  "L_inflow_today \<noteq> L_fund_score" "L_inflow_today \<noteq> L_pop_score"
  "L_inflow_today \<noteq> L_heat" "L_inflow \<noteq> L_name"
  "L_inflow \<noteq> L_sector_name" "L_inflow \<noteq> L_change"
  "L_inflow \<noteq> L_sector_change" "L_inflow \<noteq> L_inflow_today"
  "L_inflow \<noteq> L_stock_code" "L_inflow \<noteq> L_code"
  "L_inflow \<noteq> L_industry" "L_inflow \<noteq> L_count"
  "L_inflow \<noteq> L_fund_score" "L_inflow \<noteq> L_pop_score"
  "L_inflow \<noteq> L_heat" "L_stock_code \<noteq> L_name"
  "L_stock_code \<noteq> L_sector_name" "L_stock_code \<noteq> L_change"
  "L_stock_code \<noteq> L_sector_change" "L_stock_code \<noteq> L_inflow_today"
  "L_stock_code \<noteq> L_inflow" "L_stock_code \<noteq> L_code"
  "L_stock_code \<noteq> L_industry" "L_stock_code \<noteq> L_count"
  "L_stock_code \<noteq> L_fund_score" "L_stock_code \<noteq> L_pop_score"
  "L_stock_code \<noteq> L_heat" "L_code \<noteq> L_name" "L_code \<noteq> L_sector_name"
  "L_code \<noteq> L_change" "L_code \<noteq> L_sector_change"
  "L_code \<noteq> L_inflow_today" "L_code \<noteq> L_inflow"
  "L_code \<noteq> L_stock_code" "L_code \<noteq> L_industry" "L_code \<noteq> L_count"
  "L_code \<noteq> L_fund_score" "L_code \<noteq> L_pop_score" "L_code \<noteq> L_heat"
  "L_industry \<noteq> L_name" "L_industry \<noteq> L_sector_name"
  "L_industry \<noteq> L_change" "L_industry \<noteq> L_sector_change"
  "L_industry \<noteq> L_inflow_today" "L_industry \<noteq> L_inflow"
  "L_industry \<noteq> L_stock_code" "L_industry \<noteq> L_code"
  "L_industry \<noteq> L_count" "L_industry \<noteq> L_fund_score"
  "L_industry \<noteq> L_pop_score" "L_industry \<noteq> L_heat" "L_count \<noteq> L_name"
  "L_count \<noteq> L_sector_name" "L_count \<noteq> L_change"
  "L_count \<noteq> L_sector_change" "L_count \<noteq> L_inflow_today"
  "L_count \<noteq> L_inflow" "L_count \<noteq> L_stock_code" "L_count \<noteq> L_code"
  "L_count \<noteq> L_industry" "L_count \<noteq> L_fund_score"
  "L_count \<noteq> L_pop_score" "L_count \<noteq> L_heat" "L_fund_score \<noteq> L_name"
  "L_fund_score \<noteq> L_sector_name" "L_fund_score \<noteq> L_change"
  "L_fund_score \<noteq> L_sector_change" "L_fund_score \<noteq> L_inflow_today"
  "L_fund_score \<noteq> L_inflow" "L_fund_score \<noteq> L_stock_code"
  "L_fund_score \<noteq> L_code" "L_fund_score \<noteq> L_industry"
  "L_fund_score \<noteq> L_count" "L_fund_score \<noteq> L_pop_score"
  "L_fund_score \<noteq> L_heat" "L_pop_score \<noteq> L_name"
  "L_pop_score \<noteq> L_sector_name" "L_pop_score \<noteq> L_change"
  "L_pop_score \<noteq> L_sector_change" "L_pop_score \<noteq> L_inflow_today"
  "L_pop_score \<noteq> L_inflow" "L_pop_score \<noteq> L_stock_code"
  "L_pop_score \<noteq> L_code" "L_pop_score \<noteq> L_industry"
  "L_pop_score \<noteq> L_count" "L_pop_score \<noteq> L_fund_score"
  "L_pop_score \<noteq> L_heat" "L_heat \<noteq> L_name" "L_heat \<noteq> L_sector_name"
  "L_heat \<noteq> L_change" "L_heat \<noteq> L_sector_change"
  "L_heat \<noteq> L_inflow_today" "L_heat \<noteq> L_inflow"
  "L_heat \<noteq> L_stock_code" "L_heat \<noteq> L_code" "L_heat \<noteq> L_industry"
  "L_heat \<noteq> L_count" "L_heat \<noteq> L_fund_score" "L_heat \<noteq> L_pop_score"
  by (simp_all add: L_name_def L_sector_name_def L_change_def L_sector_change_def
      L_inflow_today_def L_inflow_def L_stock_code_def L_code_def L_industry_def L_count_def
      L_fund_score_def L_pop_score_def L_heat_def)

lemma replicate_numeral: "replicate (numeral v) x = x # replicate (numeral v - 1) x"
  by (simp add: numeral_eq_Suc)

lemma sample_keys:
  "ascii ''industry_fund_flow'' \<noteq> ascii ''rank_ljqs''"
  "ascii ''rank_ljqs'' \<noteq> ascii ''industry_fund_flow''"
  "ascii ''etf_technical'' \<noteq> ascii ''sector_heat_map''"
  "ascii ''sector_heat_map'' \<noteq> ascii ''etf_technical''"
  "ascii ''final_ranking'' \<noteq> ascii ''sector_heat_map''"
  "ascii ''final_ranking'' \<noteq> ascii ''etf_technical''"
  by (simp_all add: ascii_def)

lemma sample_not_empty: "\<not> df_empty flow_sample" "\<not> df_empty ljqs_sample" "\<not> df_empty heat_sample"
  by (simp_all add: df_empty_def flow_sample_def ljqs_sample_def heat_sample_def)

lemma sample_renamed:
  "renamed_flow flow_sample =
     \<lparr>columns = [L_sector_name, L_inflow],
      rows = [[CStr securities, CFloat (Fin 5)], [CStr banks, CStr (ascii ''-'')],
              [CStr insurance, CFloat (Fin 1)]]\<rparr>"
  by (simp add: renamed_flow_def rename_columns_def flow_sample_def label_neq)

lemma sample_stock_codes:
  "get_column ljqs_sample L_stock_code =
     Inr [CFloat (Fin 1), CStr (ascii ''600000''), CStr (ascii ''000002'')]"
  by (simp add: get_column_def ljqs_sample_def cell_at_def)

lemma sample_codes:
  "stock_code_strings (\<lambda>f. ascii ''1'')
     [CFloat (Fin 1), CStr (ascii ''600000''), CStr (ascii ''000002'')]
   = [ascii ''000001'', ascii ''600000'', ascii ''000002'']"
  by (simp add: stock_code_strings_def zfill_def astype_str_def ascii_def replicate_numeral)

lemma sample_industries:
  "exact_industries [(ascii ''000001'', securities), (ascii ''600000'', securities),
                     (ascii ''000002'', insurance)]
     [ascii ''000001'', ascii ''600000'', ascii ''000002'']
   = [Some securities, Some securities, Some insurance]"
  by (simp add: exact_industries_def ascii_def)

lemma sample_tagged:
  "tag_ljqs ljqs_sample [ascii ''000001'', ascii ''600000'', ascii ''000002'']
     [Some securities, Some securities, Some insurance] = ljqs_tagged"
  by (simp add: tag_ljqs_def set_column_def cell_at_def ljqs_sample_def ljqs_tagged_def label_neq)

lemma sample_counts:
  "ljqs_counts [Some securities, Some securities, Some insurance]
   = [(securities, 2), (insurance, Suc 0)]"
  by (simp add: ljqs_counts_def group_counts_def List.map_filter_def securities_def insurance_def)

lemma sample_merged:
  "merge_left
     \<lparr>columns = [L_sector_name, L_inflow],
      rows = [[CStr securities, CFloat (Fin 5)], [CStr banks, CStr (ascii ''-'')],
              [CStr insurance, CFloat (Fin 1)]]\<rparr>
     [(securities, 2), (insurance, Suc 0)]
   = Inr \<lparr>columns = [L_sector_name, L_inflow, L_industry, L_count],
          rows = [[CStr securities, CFloat (Fin 5), CStr securities, CFloat (Fin 2)],
                  [CStr banks, CStr (ascii ''-''), CFloat NaN, CFloat NaN],
                  [CStr insurance, CFloat (Fin 1), CStr insurance, CFloat (Fin 1)]]\<rparr>"
  by (simp add: merge_left_def reindex_def cell_at_def label_neq Let_def securities_def
      banks_def insurance_def)

lemma sample_counted:
  "get_column
     \<lparr>columns = [L_sector_name, L_inflow, L_industry, L_count],
      rows = [[CStr securities, CFloat (Fin 5), CStr securities, CFloat (Fin 2)],
              [CStr banks, CStr (ascii ''-''), CFloat NaN, CFloat NaN],
              [CStr insurance, CFloat (Fin 1), CStr insurance, CFloat (Fin 1)]]\<rparr> L_count
   = Inr [CFloat (Fin 2), CFloat NaN, CFloat (Fin 1)]"
  by (simp add: get_column_def cell_at_def label_neq)

lemmas double_eval = to_double_def ulp_def pow2_def exponent_of_def clog2_def ilog2.simps
      round_half_even_def Let_def

lemma sample_heat_table:
  "sort_values_desc L_heat (heat_table (\<lambda>s. NaN)
     \<lparr>columns = [L_sector_name, L_inflow, L_industry, L_count],
      rows = [[CStr securities, CFloat (Fin 5), CStr securities, CFloat (Fin 2)],
              [CStr banks, CStr (ascii ''-''), CFloat NaN, CFloat NaN],
              [CStr insurance, CFloat (Fin 1), CStr insurance, CFloat (Fin 1)]]\<rparr>)
   = heat_sample"
  by (simp add: heat_table_def set_column_def cells_of_def cell_at_def label_neq
      to_numeric_cell_def fillna0_def rank_pct_def pct_of_def finite_values_def
      average_rank_def dscale_def dadd_def round2_def heat_formula_def double_eval
      float_of_cell_def isna_def List.map_filter_def Let_def sort_values_desc_def
      sort_desc_def heat_sample_def)

lemma sample_sector_run:
  "analyze_sector_strength (\<lambda>f. ascii ''1'') (\<lambda>s. NaN) (self_sample industry_sample) =
     (None,
      \<lparr>data = [ascii ''industry_fund_flow'' \<mapsto> flow_sample, ascii ''rank_ljqs'' \<mapsto> ljqs_tagged],
       analysis_result = [ascii ''etf_technical'' \<mapsto> Etfs [bank_etf],
                          ascii ''sector_heat_map'' \<mapsto> Frame heat_sample],
       stock_to_industry_map = industry_sample, run_mode = None, is_trading_day = None\<rparr>)"
  by (simp add: analyze_sector_strength_def self_sample_def industry_sample_def sample_keys
      sample_not_empty sample_renamed sample_stock_codes sample_codes sample_industries
      sample_tagged sample_counts sample_merged sample_counted sample_heat_table
      store_heat_map_def put_result_def Let_def)

subsection \<open>Heat formula\<close>





text \<open>
  Where the rounding of the machine shows. Forty sectors, none with a co-rising stock
  and none with an inflow: every count ranks 20.5 of 40, the popularity score is the
  double just below 51.25 (it prints as 51.24999999999999), the fund-strength score is
  the neutral 50, and the heat is the double nearest to 50.87. On exact numbers the sum
  would be 50.875 and would round to 50.88.
\<close>

lemma heat_of_forty_ties:
  "dscale 100 (pct_of (replicate 40 (Fin 0)) (Fin 0)) = Fin (7212796278210559 / 140737488355328)"
  "heat_formula (Fin (7212796278210559 / 140737488355328)) (Fin 50)
     = Fin (7159316032635535 / 140737488355328)"
  "to_double (5087 / 100) = 7159316032635535 / 140737488355328"
  by (simp_all add: pct_of_def finite_values_def List.map_filter_def average_rank_def
      filter_replicate dscale_def dadd_def round2_def heat_formula_def double_eval)

subsection \<open>Runs on the sample\<close>

lemma sample_calendars:
  "calendar_days calendar_sample to_date_sample = Some {(2024, Suc 0, 4), (2024, Suc 0, 5)}"
  "calendar_days calendar_weekend to_date_sample = Some {(2024, Suc 0, 6)}"
  "calendar_days (Inl OSError) to_date_sample = None"
  by (simp_all add: calendar_days_def calendar_sample_def calendar_weekend_def
      to_date_sample_def cell_at_def List.map_filter_def ascii_def)
lemma sample_trade_days:
  "is_trade_day calendar_sample to_date_sample (2024, Suc 0, 5) = Some True"
  "is_trade_day calendar_sample to_date_sample (2024, Suc 0, 6) = Some False"
  "is_trade_day (Inl OSError) to_date_sample (2024, Suc 0, 5) = None"
  "is_trade_day (Inl OSError) to_date_sample (2024, Suc 0, 6) = None"
  by (simp_all add: is_trade_day_calendar sample_calendars)
lemma sample_weekdays:
  "weekday (clock_at (Suc 0) h m) = 0" "weekday (clock_at 5 h m) = 4"
  "weekday (clock_at 6 h m) = 5"
  by (simp_all add: weekday_def clock_at_def ymd2ord_def days_before_year_def
     days_before_month_def days_in_month_def is_leap_def)
lemma sample_world:
  "w_clock (world_sample now cal fetched) = now"
  "w_calendar (world_sample now cal fetched) = cal"
  "w_to_date (world_sample now cal fetched) = to_date_sample"
  by (simp_all add: world_sample_def)
lemma sample_clock: "date_of (clock_at d h m) = (2024, Suc 0, d)" "hour (clock_at d h m) = h"
  by (simp_all add: date_of_def clock_at_def)

text \<open>
  The scenarios of the specification on Friday 5 January 2024, a listed trading day
  (10:00, 12:30, 14:00, 16:00), and on Saturday 6 January, which the calendar does not
  list. The calendar decides where it disagrees with the weekday: Monday 1 January is a
  weekday that the calendar does not list, and the second calendar lists the Saturday.
  With the calendar unavailable the weekday decides: Monday and Friday are trading days,
  Saturday is not.
\<close>

theorem run_mode_classification_witness:
  "run_mode (snd (run_analysis
       (world_sample (clock_at 5 10 0) calendar_sample (True, Map.empty, ONone)) analyzer_init))
     = Some LIVE_MORNING \<and>
   run_mode (snd (run_analysis
       (world_sample (clock_at 5 12 30) calendar_sample (True, Map.empty, ONone)) analyzer_init))
     = Some MIDDAY_SUMMARY \<and>
   run_mode (snd (run_analysis
       (world_sample (clock_at 5 14 0) calendar_sample (True, Map.empty, ONone)) analyzer_init))
     = Some LIVE_AFTERNOON \<and>
   run_mode (snd (run_analysis
       (world_sample (clock_at 5 16 0) calendar_sample (True, Map.empty, ONone)) analyzer_init))
     = Some POST_MARKET \<and>
   run_mode (snd (run_analysis
       (world_sample (clock_at 6 10 0) calendar_sample (True, Map.empty, ONone)) analyzer_init))
     = Some POST_MARKET \<and>
   run_mode (snd (run_analysis
       (world_sample (clock_at 1 10 0) calendar_sample (True, Map.empty, ONone)) analyzer_init))
     = Some POST_MARKET \<and>
   is_trading_day (snd (run_analysis
       (world_sample (clock_at 1 10 0) calendar_sample (True, Map.empty, ONone)) analyzer_init))
     = Some False \<and>
   run_mode (snd (run_analysis
       (world_sample (clock_at 6 10 0) calendar_weekend (True, Map.empty, ONone)) analyzer_init))
     = Some LIVE_MORNING \<and>
   is_trading_day (snd (run_analysis
       (world_sample (clock_at 6 10 0) calendar_weekend (True, Map.empty, ONone)) analyzer_init))
     = Some True \<and>
   run_mode (snd (run_analysis
       (world_sample (clock_at 1 10 0) (Inl OSError) (True, Map.empty, ONone)) analyzer_init))
     = Some LIVE_MORNING \<and>
   run_mode (snd (run_analysis
       (world_sample (clock_at 5 10 0) (Inl OSError) (True, Map.empty, ONone)) analyzer_init))
     = Some LIVE_MORNING \<and>
   run_mode (snd (run_analysis
       (world_sample (clock_at 6 10 0) (Inl OSError) (True, Map.empty, ONone)) analyzer_init))
     = Some POST_MARKET"
  using run_mode_classification
    [of "world_sample (clock_at 5 10 0) calendar_sample (True, Map.empty, ONone)" analyzer_init]
    run_mode_classification
    [of "world_sample (clock_at 5 12 30) calendar_sample (True, Map.empty, ONone)" analyzer_init]
    run_mode_classification
    [of "world_sample (clock_at 5 14 0) calendar_sample (True, Map.empty, ONone)" analyzer_init]
    run_mode_classification
    [of "world_sample (clock_at 5 16 0) calendar_sample (True, Map.empty, ONone)" analyzer_init]
    run_mode_classification
    [of "world_sample (clock_at 6 10 0) calendar_sample (True, Map.empty, ONone)" analyzer_init]
    run_mode_classification
    [of "world_sample (clock_at 1 10 0) calendar_sample (True, Map.empty, ONone)" analyzer_init]
    run_mode_classification
    [of "world_sample (clock_at 6 10 0) calendar_weekend (True, Map.empty, ONone)" analyzer_init]
    run_mode_classification
    [of "world_sample (clock_at 1 10 0) (Inl OSError) (True, Map.empty, ONone)" analyzer_init]
    run_mode_classification
    [of "world_sample (clock_at 5 10 0) (Inl OSError) (True, Map.empty, ONone)" analyzer_init]
    run_mode_classification
    [of "world_sample (clock_at 6 10 0) (Inl OSError) (True, Map.empty, ONone)" analyzer_init]
  by (simp add: sample_world sample_clock sample_calendars sample_weekdays Let_def)

lemma analysis_result_isolated:
  "analysis_result (isolated k b s) =
     (analysis_result s)(k \<mapsto> (case b s of Inr payload \<Rightarrow> Dict payload | Inl e \<Rightarrow> Dict []))"
  by (simp add: isolated_def put_result_def split: sum.splits)

lemma sector_strength_refuses_table:
  assumes "data s (ascii ''industry_fund_flow'') = Some flow" and "\<not> df_empty flow"
    and "data s (ascii ''rank_ljqs'') = Some ljqs" and "\<not> df_empty ljqs"
    and "stock_to_industry_map s = OFrame m"
  shows "analyze_sector_strength sf tn s = (Some ValueError, s)"
  using assms by (simp add: analyze_sector_strength_def Let_def)

text \<open>
  C1, at an input where the code departs from it. The producer of the stock-to-industry
  map has failed, so \<open>stock_to_industry_map\<close> is the empty table that \<open>cache_data\<close>
  returns; the fund-flow table and the co-rising table are not empty.
  \<open>analyze_sector_strength\<close> then raises \<open>ValueError\<close> and writes nothing under its
  key. In the run, the isolated analyzers before it have stored their results (the
  sentiment analyzer, whose body raises, has stored \<open>{}\<close>), but the exception of the
  sector analyzer escapes \<open>run_analysis\<close>: no heat map is stored, and the stage
  analyzer and everything after it never run.
\<close>

theorem sector_strength_escapes:
  "analyze_sector_strength (\<lambda>f. ascii ''1'') (\<lambda>s. NaN) (self_sample (OFrame empty_df))
     = (Some ValueError, self_sample (OFrame empty_df)) \<and>
   (case run_analysis (world_sample (clock_at 5 10 0) calendar_sample
                         (fetched_sample (OFrame empty_df))) analyzer_init of
      (escaped, final) \<Rightarrow>
        escaped = Some ValueError \<and>
        analysis_result final (ascii ''limitup'') = Some (Dict [(ascii ''limit_up_count'', JNum 3)]) \<and>
        analysis_result final (ascii ''sentiment'') = Some (Dict []) \<and>
        analysis_result final (ascii ''sector_heat_map'') = None \<and>
        analysis_result final (ascii ''market_stage'') = None \<and>
        analysis_result final (ascii ''conclusion_raw'') = None)"
proof -
  define w where "w = world_sample (clock_at 5 10 0) calendar_sample (fetched_sample (OFrame empty_df))"
  define s2 where "s2 = analyzer_init\<lparr>is_trading_day := Some True, run_mode := Some LIVE_MORNING,
      data := [ascii ''industry_fund_flow'' \<mapsto> flow_sample, ascii ''rank_ljqs'' \<mapsto> ljqs_sample],
      stock_to_industry_map := OFrame empty_df\<rparr>"
  define s8 where "s8 = analyze_market_sentiment w (analyze_limitup_structure w
      (analyze_market_style w (analyze_intermarket_relationship w
      (analyze_northbound_fund_flow w (analyze_margin_trading w
      (analyze_market_turnover w (analyze_market_liquidity w s2)))))))"
  have first: "analyze_sector_strength (\<lambda>f. ascii ''1'') (\<lambda>s. NaN) (self_sample (OFrame empty_df))
     = (Some ValueError, self_sample (OFrame empty_df))"
    by (rule sector_strength_refuses_table [where flow = flow_sample and ljqs = ljqs_sample])
       (simp_all add: self_sample_def sample_keys sample_not_empty)
  have w_sel: "w_clean_old_cache w = None" "w_fetch_data w = fetched_sample (OFrame empty_df)"
    "w_str_float w = (\<lambda>f. ascii ''1'')" "w_to_numeric w = (\<lambda>s. NaN)"
    by (simp_all add: w_def world_sample_def)
  have run: "run_analysis w analyzer_init = pipeline w s2"
    by (simp add: run_analysis_def w_sel fetched_sample_def Let_def s2_def analyzer_init_def
        trading_day_of_def mode_of_def)
       (simp add: w_def sample_world sample_clock sample_trade_days)
  have frame: "data s8 = data s2" "stock_to_industry_map s8 = stock_to_industry_map s2"
    by (simp_all add: s8_def analyze_market_sentiment_def analyze_limitup_structure_def
        analyze_market_style_def analyze_intermarket_relationship_def
        analyze_northbound_fund_flow_def analyze_margin_trading_def
        analyze_market_turnover_def analyze_market_liquidity_def)
  have sect: "analyze_sector_strength (w_str_float w) (w_to_numeric w) s8 = (Some ValueError, s8)"
    by (rule sector_strength_refuses_table [where flow = flow_sample and ljqs = ljqs_sample])
       (simp_all add: frame s2_def sample_keys sample_not_empty)
  have pipe: "pipeline w s2 = (Some ValueError, s8)"
    by (simp add: pipeline_def Let_def sect flip: s8_def)
  have res: "analysis_result s8 =
      Map.empty(ascii ''liquidity'' \<mapsto> Dict [], ascii ''turnover'' \<mapsto> Dict [],
        ascii ''margin_trading'' \<mapsto> Dict [], ascii ''northbound'' \<mapsto> Dict [],
        ascii ''intermarket'' \<mapsto> Dict [], ascii ''style'' \<mapsto> Dict [],
        ascii ''limitup'' \<mapsto> Dict [(ascii ''limit_up_count'', JNum 3)],
        ascii ''sentiment'' \<mapsto> Dict [])"
    by (simp add: s8_def analyze_market_sentiment_def analyze_limitup_structure_def
        analyze_market_style_def analyze_intermarket_relationship_def
        analyze_northbound_fund_flow_def analyze_margin_trading_def
        analyze_market_turnover_def analyze_market_liquidity_def analysis_result_isolated
        w_def world_sample_def s2_def analyzer_init_def)
  have keys: "analysis_result s8 (ascii ''limitup'') = Some (Dict [(ascii ''limit_up_count'', JNum 3)])"
    "analysis_result s8 (ascii ''sentiment'') = Some (Dict [])"
    "analysis_result s8 (ascii ''sector_heat_map'') = None"
    "analysis_result s8 (ascii ''market_stage'') = None"
    "analysis_result s8 (ascii ''conclusion_raw'') = None"
    unfolding res by (simp_all add: ascii_def)
  show ?thesis
    using first keys by (simp add: run pipe flip: w_def)
qed

subsection \<open>Scoring\<close>

lemma score_etf_Inr:
  assumes "score_etf f1 fv t2h e = Inr r"
  shows "\<exists>hv. heat_lookup t2h (fst (get_etf_sector_and_theme (etf_name e))) = CFloat hv \<and>
              row_name r = etf_name e \<and>
              final_score r = fclip (fadd (base_score e) (heat_score_of hv)) 0 5"
proof (cases "heat_lookup t2h (fst (get_etf_sector_and_theme (etf_name e)))")
  case (CFloat hv)
  with assms show ?thesis
    by (auto simp: score_etf_def Let_def case_prod_unfold)
qed (use assms in \<open>simp_all add: score_etf_def Let_def case_prod_unfold\<close>)

lemma score_etf_float:
  assumes "heat_lookup t2h (fst (get_etf_sector_and_theme (etf_name e))) = CFloat hv"
  shows "\<exists>r. score_etf f1 fv t2h e = Inr r \<and> row_name r = etf_name e \<and>
             final_score r = fclip (fadd (base_score e) (heat_score_of hv)) 0 5"
  using assms by (simp add: score_etf_def Let_def case_prod_unfold)

lemma score_all_rows:
  "score_all f1 fv t2h es = Inr rs \<Longrightarrow> list_all2 (\<lambda>e r. score_etf f1 fv t2h e = Inr r) es rs"
  by (induction es arbitrary: rs) (auto split: sum.splits)

lemma clip_numeric:
  "fclip (fadd (Fin b) (heat_score_of (Fin hv))) 0 5 = Fin (clip_law b hv)"
  "within_0_5 (Fin (clip_law b hv))"
  "clip_law b 50 = min (max b 0) 5"
  by (simp_all add: fclip_def fadd_def heat_score_of_def clip_law_def within_0_5_def)

lemma heat_lookup_default:
  "CStr sector \<notin> fst ` set t2h \<Longrightarrow> heat_lookup t2h sector = CFloat (Fin 50)"
proof -
  assume "CStr sector \<notin> fst ` set t2h"
  then have "map_of (rev t2h) (CStr sector) = None" by (simp add: map_of_eq_None_iff)
  then show ?thesis by (simp add: heat_lookup_def)
qed

lemma unmatched_other:
  assumes "\<not> matches nm hk_keywords" and "\<forall>rule \<in> set map_rules. \<not> matches nm (snd rule)"
  shows "get_etf_sector_and_theme nm = (L_other, L_other)"
proof -
  have "find (\<lambda>(sector_theme, keywords). matches nm keywords) map_rules = None"
    using assms(2) by (auto simp: find_None_iff)
  then show ?thesis using assms(1) by (simp add: get_etf_sector_and_theme_def)
qed

lemma length_sort_desc: "length (sort_desc key rs) = length rs"
  using filter_len_sort_desc [of "\<lambda>x. True" key rs] by simp

lemma scoring_result:
  assumes "comprehensive_scoring f1 fv self = (None, self')"
    and "analysis_result self (ascii ''etf_technical'') = Some (Etfs etfs)" and "etfs \<noteq> []"
    and "analysis_result self (ascii ''sector_heat_map'') = Some (Frame heat_map)"
    and "\<not> df_empty heat_map"
  shows "\<exists>rs. score_all f1 fv (theme_to_heat heat_map) etfs = Inr rs \<and>
              analysis_result self' (ascii ''final_ranking'')
                = Some (Ranking (sort_desc final_score rs))"
  using assms
  by (auto simp: comprehensive_scoring_def put_result_def split: if_splits sum.splits)

text \<open>
  C7, as the code has it. When \<open>comprehensive_scoring\<close> scores (some ETF has been
  analysed, the heat map is not empty, no exception escapes), it stores one ranking row
  for each ETF, and for every row, with the ETF it comes from: if the base score and the
  heat value looked up for the ETF's sector are numbers, the final score is
  \<open>clip(base + (heat - 50) / 15, 0, 5)\<close> and lies between 0 and 5 inclusive; if the
  sector has no entry in the heat map, the neutral heat value 50 is used and the
  adjustment is zero. A name that no keyword rule matches has the sector "other".
\<close>

theorem scoring_clip_law:
  assumes "comprehensive_scoring fmt1 fmt_value self = (None, self')"
    and "analysis_result self (ascii ''etf_technical'') = Some (Etfs etfs)" and "etfs \<noteq> []"
    and "analysis_result self (ascii ''sector_heat_map'') = Some (Frame heat_map)"
    and "\<not> df_empty heat_map"
  shows "\<exists>ranking.
           analysis_result self' (ascii ''final_ranking'') = Some (Ranking ranking) \<and>
           length ranking = length etfs \<and>
           (\<forall>r \<in> set ranking. \<exists>e \<in> set etfs.
              row_name r = etf_name e \<and>
              (\<forall>b hv. base_score e = Fin b \<and>
                      heat_lookup (theme_to_heat heat_map)
                        (fst (get_etf_sector_and_theme (etf_name e))) = CFloat (Fin hv) \<longrightarrow>
                      final_score r = Fin (clip_law b hv) \<and> within_0_5 (final_score r)) \<and>
              (\<forall>b. base_score e = Fin b \<and>
                   CStr (fst (get_etf_sector_and_theme (etf_name e)))
                     \<notin> fst ` set (theme_to_heat heat_map) \<longrightarrow>
                   final_score r = Fin (clip_law b 50) \<and> clip_law b 50 = min (max b 0) 5)) \<and>
           (\<forall>nm. \<not> matches nm hk_keywords \<and> (\<forall>rule \<in> set map_rules. \<not> matches nm (snd rule)) \<longrightarrow>
                 get_etf_sector_and_theme nm = (L_other, L_other))"
proof -
  let ?t2h = "theme_to_heat heat_map"
  from scoring_result [OF assms] obtain rs where
    rs: "score_all fmt1 fmt_value ?t2h etfs = Inr rs" and
    stored: "analysis_result self' (ascii ''final_ranking'') = Some (Ranking (sort_desc final_score rs))"
    by blast
  have all2: "list_all2 (\<lambda>e r. score_etf fmt1 fmt_value ?t2h e = Inr r) etfs rs"
    using rs by (rule score_all_rows)
  have len: "length (sort_desc final_score rs) = length etfs"
    using all2 by (simp add: length_sort_desc list_all2_lengthD)
  have row: "\<exists>e \<in> set etfs.
              row_name r = etf_name e \<and>
              (\<forall>b hv. base_score e = Fin b \<and>
                      heat_lookup ?t2h (fst (get_etf_sector_and_theme (etf_name e))) = CFloat (Fin hv) \<longrightarrow>
                      final_score r = Fin (clip_law b hv) \<and> within_0_5 (final_score r)) \<and>
              (\<forall>b. base_score e = Fin b \<and>
                   CStr (fst (get_etf_sector_and_theme (etf_name e))) \<notin> fst ` set ?t2h \<longrightarrow>
                   final_score r = Fin (clip_law b 50) \<and> clip_law b 50 = min (max b 0) 5)"
    if "r \<in> set (sort_desc final_score rs)" for r
  proof -
    from that have "r \<in> set rs" by (simp add: set_sort_desc)
    then obtain i where i: "i < length rs" "r = rs ! i" by (auto simp: in_set_conv_nth)
    define e where "e = etfs ! i"
    have e: "e \<in> set etfs" "score_etf fmt1 fmt_value ?t2h e = Inr r"
      using all2 i by (auto simp: e_def list_all2_conv_all_nth)
    from score_etf_Inr [OF e(2)] obtain hv where
      hv: "heat_lookup ?t2h (fst (get_etf_sector_and_theme (etf_name e))) = CFloat hv"
        "row_name r = etf_name e"
        "final_score r = fclip (fadd (base_score e) (heat_score_of hv)) 0 5"
      by blast
    have "final_score r = Fin (clip_law b h) \<and> within_0_5 (final_score r)"
      if "base_score e = Fin b" "heat_lookup ?t2h (fst (get_etf_sector_and_theme (etf_name e))) = CFloat (Fin h)"
      for b h
      using that hv by (simp add: clip_numeric)
    moreover have "final_score r = Fin (clip_law b 50) \<and> clip_law b 50 = min (max b 0) 5"
      if "base_score e = Fin b" "CStr (fst (get_etf_sector_and_theme (etf_name e))) \<notin> fst ` set ?t2h"
      for b
    proof -
      have "hv = Fin 50" using hv(1) heat_lookup_default [OF that(2)] by simp
      then show ?thesis using that(1) hv(3) by (simp add: clip_numeric)
    qed
    ultimately show ?thesis using e(1) hv(2) by blast
  qed
  show ?thesis
    using stored len row unmatched_other by blast
qed

lemma sample_sectors:
  "get_etf_sector_and_theme (securities @ ascii ''ETF'') = (securities, finance)"
  "get_etf_sector_and_theme (banks @ ascii ''ETF'') = (banks, finance)"
  "get_etf_sector_and_theme (ascii ''XYZ'') = (L_other, L_other)"
  by (simp_all add: get_etf_sector_and_theme_def matches_def hk_keywords_def map_rules_def
      securities_def banks_def finance_def L_other_def L_hk_def ascii_def)

lemma sample_theme_to_heat:
  "theme_to_heat heat_sample =
     [(CStr securities, CFloat (Fin 100)),
      (CStr insurance, CFloat (Fin (4339640453436539 / 70368744177664))),
      (CStr banks, CFloat NaN)]"
  by (simp add: theme_to_heat_def heat_sample_def cell_at_def label_neq)

lemma sample_lookups:
  "heat_lookup (theme_to_heat heat_sample) securities = CFloat (Fin 100)"
  "heat_lookup (theme_to_heat heat_sample) banks = CFloat NaN"
  "heat_lookup (theme_to_heat heat_sample) L_other = CFloat (Fin 50)"
  by (simp_all add: sample_theme_to_heat heat_lookup_def securities_def banks_def
      insurance_def L_other_def)

lemma sample_heat_columns:
  "L_sector_name \<in> set (columns heat_sample)" "L_heat \<in> set (columns heat_sample)"
  by (simp_all add: heat_sample_def)

lemma scoring_run:
  assumes "analysis_result s (ascii ''etf_technical'') = Some (Etfs etfs)" and "etfs \<noteq> []"
    and "analysis_result s (ascii ''sector_heat_map'') = Some (Frame heat_sample)"
    and "score_all f1 fv (theme_to_heat heat_sample) etfs = Inr rs"
  shows "comprehensive_scoring f1 fv s =
           (None, put_result (ascii ''final_ranking'') (Ranking (sort_desc final_score rs)) s)"
  using assms by (simp add: comprehensive_scoring_def sample_not_empty sample_heat_columns)

text \<open>
  A securities ETF (heat 100: 3 + 50/15 is clipped to 5) and an ETF of unmatched name
  (sector "other", no entry: 2 + 0).
\<close>

theorem scoring_clip_law_witness:
  "(case comprehensive_scoring (\<lambda>f. ascii ''#'') (\<lambda>c. ascii ''#'') scoring_sample of
      (escaped, final) \<Rightarrow>
        escaped = None \<and>
        (case analysis_result final (ascii ''final_ranking'') of
           Some (Ranking rs) \<Rightarrow>
             map row_name rs = [securities @ ascii ''ETF'', ascii ''XYZ''] \<and>
             map final_score rs = [Fin 5, Fin 2] \<and> list_all (\<lambda>r. within_0_5 (final_score r)) rs
         | _ \<Rightarrow> False))"
proof -
  let ?f1 = "\<lambda>f::pyfloat. ascii ''#''" and ?fv = "\<lambda>c::cell. ascii ''#''"
  let ?t2h = "theme_to_heat heat_sample"
  obtain r1 where r1: "score_etf ?f1 ?fv ?t2h securities_etf = Inr r1"
    "row_name r1 = securities @ ascii ''ETF''" "final_score r1 = Fin 5"
    using score_etf_float [of ?t2h securities_etf "Fin 100" ?f1 ?fv]
    by (auto simp: securities_etf_def sample_sectors sample_lookups fclip_def fadd_def
        heat_score_of_def)
  obtain r2 where r2: "score_etf ?f1 ?fv ?t2h unmatched_etf = Inr r2"
    "row_name r2 = ascii ''XYZ''" "final_score r2 = Fin 2"
    using score_etf_float [of ?t2h unmatched_etf "Fin 50" ?f1 ?fv]
    by (auto simp: unmatched_etf_def sample_sectors sample_lookups fclip_def fadd_def
        heat_score_of_def)
  have all: "score_all ?f1 ?fv ?t2h [securities_etf, unmatched_etf] = Inr [r1, r2]"
    by (simp add: r1 r2)
  have sorted: "sort_desc final_score [r1, r2] = [r1, r2]"
    by (simp add: sort_desc_def r1 r2)
  have etfs: "analysis_result scoring_sample (ascii ''etf_technical'')
                = Some (Etfs [securities_etf, unmatched_etf])"
    and hm: "analysis_result scoring_sample (ascii ''sector_heat_map'') = Some (Frame heat_sample)"
    by (simp_all add: scoring_sample_def sample_keys)
  have run: "comprehensive_scoring ?f1 ?fv scoring_sample =
      (None, put_result (ascii ''final_ranking'') (Ranking [r1, r2]) scoring_sample)"
    using scoring_run [OF etfs _ hm all] by (simp add: sorted)
  from scoring_clip_law [OF run etfs _ hm sample_not_empty(3)]
  have "\<forall>r \<in> set [r1, r2]. \<exists>e \<in> set [securities_etf, unmatched_etf].
          \<forall>b hv. base_score e = Fin b \<and>
             heat_lookup ?t2h (fst (get_etf_sector_and_theme (etf_name e))) = CFloat (Fin hv) \<longrightarrow>
             within_0_5 (final_score r)"
    by (simp add: put_result_def) blast
  then have "within_0_5 (final_score r1) \<and> within_0_5 (final_score r2)"
    by (auto simp: securities_etf_def unmatched_etf_def sample_sectors sample_lookups)
  then show ?thesis
    by (simp add: run put_result_def r1 r2)
qed

text \<open>
  The claim as the specification states it ("for any heat value") fails on \<open>nan\<close>. On
  the sample, the inflow of the banks is a placeholder while other sectors have numbers,
  so \<open>analyze_sector_strength\<close> stores \<open>nan\<close> as the heat of the banks; the bank ETF
  (base score 2) then gets the final score \<open>nan\<close>, which is not in the range 0 to 5.
\<close>

theorem scoring_nan_counterexample:
  "(case comprehensive_scoring (\<lambda>f. ascii ''#'') (\<lambda>c. ascii ''#'')
          (snd (analyze_sector_strength (\<lambda>f. ascii ''1'') (\<lambda>s. NaN)
                  (self_sample industry_sample))) of
      (escaped, final) \<Rightarrow>
        escaped = None \<and>
        (case analysis_result final (ascii ''final_ranking'') of
           Some (Ranking rs) \<Rightarrow>
             map row_name rs = [banks @ ascii ''ETF''] \<and> map final_score rs = [NaN]
         | _ \<Rightarrow> False)) \<and>
   base_score bank_etf = Fin 2 \<and> \<not> within_0_5 NaN"
proof -
  let ?f1 = "\<lambda>f::pyfloat. ascii ''#''" and ?fv = "\<lambda>c::cell. ascii ''#''"
  let ?t2h = "theme_to_heat heat_sample"
  define s where "s = snd (analyze_sector_strength (\<lambda>f. ascii ''1'') (\<lambda>s. NaN)
                  (self_sample industry_sample))"
  obtain r where r: "score_etf ?f1 ?fv ?t2h bank_etf = Inr r"
    "row_name r = banks @ ascii ''ETF''" "final_score r = NaN"
    using score_etf_float [of ?t2h bank_etf NaN ?f1 ?fv]
    by (auto simp: bank_etf_def sample_sectors sample_lookups fclip_def fadd_def
        heat_score_of_def)
  have all: "score_all ?f1 ?fv ?t2h [bank_etf] = Inr [r]"
    by (simp add: r)
  have etfs: "analysis_result s (ascii ''etf_technical'') = Some (Etfs [bank_etf])"
    and hm: "analysis_result s (ascii ''sector_heat_map'') = Some (Frame heat_sample)"
    by (simp_all add: s_def sample_sector_run sample_keys)
  have run: "comprehensive_scoring ?f1 ?fv s =
      (None, put_result (ascii ''final_ranking'') (Ranking [r]) s)"
    using scoring_run [OF etfs _ hm all] by (simp add: sort_desc_def)
  show ?thesis
    by (simp add: run put_result_def r within_0_5_def bank_etf_def flip: s_def)
qed

end
